theory Spec2Isabelle
  imports Main "HOL-Library.Sublist"
begin

section \<open>JavaScript primitives used by the sources\<close>

text \<open>
  A JavaScript string is modelled as a list of code units; \<^typ>\<open>char\<close> covers the code
  units below 256, which is all the instruction texts of the service use.
\<close>

definition nl :: string where
  "nl = [CHR 0x0A]"

text \<open>\<^verbatim>\<open>s.indexOf(c)\<close> for a one-character search string: the first position, or -1.\<close>

definition js_indexOf :: "string \<Rightarrow> char \<Rightarrow> int" where
  "js_indexOf s c = (if c \<in> set s then int (length (takeWhile (\<lambda>x. x \<noteq> c) s)) else - 1)"

text \<open>
  \<^verbatim>\<open>s.substring(a, b)\<close>: both arguments are clamped to the string, and swapped when
  the first is the larger. \<^verbatim>\<open>s.substring(a)\<close> runs to the end of the string.
\<close>

definition js_substring :: "string \<Rightarrow> int \<Rightarrow> int \<Rightarrow> string" where
  "js_substring s a b =
     (let n = int (length s);
          a' = max 0 (min a n);
          b' = max 0 (min b n);
          lo = min a' b';
          hi = max a' b'
      in take (nat (hi - lo)) (drop (nat lo) s))"

definition js_substring_from :: "string \<Rightarrow> int \<Rightarrow> string" where
  "js_substring_from s a = drop (nat (max 0 (min a (int (length s))))) s"

text \<open>
  \<^verbatim>\<open>xs.slice(0, e)\<close>: a negative end counts from the end of the array, and the end is
  clamped to the array.
\<close>

definition js_slice0 :: "'a list \<Rightarrow> int \<Rightarrow> 'a list" where
  "js_slice0 xs e =
     (let n = int (length xs);
          k = (if e < 0 then max (n + e) 0 else min e n)
      in take (nat k) xs)"

text \<open>\<^verbatim>\<open>xs.filter((_, index) => index !== i)\<close>.\<close>

definition filter_index_neq :: "nat \<Rightarrow> 'a list \<Rightarrow> 'a list" where
  "filter_index_neq i xs = map fst (filter (\<lambda>(x, j). j \<noteq> i) (zip xs [0..<length xs]))"

text \<open>The white space and line terminators that \<^verbatim>\<open>trim()\<close> strips, below 256.\<close>

definition js_whitespace :: "char \<Rightarrow> bool" where
  "js_whitespace c \<longleftrightarrow>
     c \<in> {CHR 0x09, CHR 0x0A, CHR 0x0B, CHR 0x0C, CHR 0x0D, CHR 0x20, CHR 0xA0}"

definition js_trim :: "string \<Rightarrow> string" where
  "js_trim s = rev (dropWhile js_whitespace (rev (dropWhile js_whitespace s)))"

text \<open>Truthiness of a \<^verbatim>\<open>string | null\<close>: null and the empty string are falsy.\<close>

fun truthy :: "string option \<Rightarrow> bool" where
  "truthy None = False"
| "truthy (Some s) = (s \<noteq> [])"

text \<open>A non-negative integer inside a template literal: its decimal digits.\<close>

fun js_show_nat :: "nat \<Rightarrow> string" where
  "js_show_nat n =
     (if n < 10 then [char_of (48 + n)]
      else js_show_nat (n div 10) @ [char_of (48 + n mod 10)])"

declare js_show_nat.simps [simp del]

section \<open>Types (types.ts)\<close>

datatype AppState = TITLE_INPUT | GENERATING_TITLES | TITLES_DISPLAYED | THUMBNAIL_INPUT

datatype Language = en | ar

text \<open>
  A browser \<^verbatim>\<open>File\<close>: the handlers read its size only; its content reaches them
  through \<^verbatim>\<open>fileToBase64\<close>, which is a parameter of the model (\<open>None\<close> when the
  platform read fails and the promise rejects).
\<close>

record File =
  file_name :: string
  file_size :: nat

record UploadedImage =
  "file" :: File
  preview :: string

type_synonym encoder = "File \<Rightarrow> string option"

section \<open>The generation service (services/geminiService.ts)\<close>

subsection \<open>Requests, replies and the endpoint\<close>

datatype inlineData = InlineData (data: string) (mimeType: string)

datatype part = TextPart string | InlinePart inlineData

datatype contents = Prompt string | Parts "part list"

datatype config = NoConfig | JsonStringArray | ImageModality

record request =
  model :: string
  req_contents :: contents
  req_config :: config

text \<open>
  A response part has optional fields; every level of the path
  \<^verbatim>\<open>response?.candidates?.[0]?.content?.parts?.[0]\<close> may be missing.
\<close>

datatype rpart = RPart (part_text: "string option") (part_inlineData: "inlineData option")

datatype content = Content (content_parts: "rpart list option")

datatype candidate = Candidate (cand_content: "content option")

datatype response = Response (resp_text: string) (candidates: "candidate list option")

datatype reply = Rejected string | Replied response

text \<open>
  The external model: what it answers may depend on the request and on how many
  requests were sent before. Every call is recorded in a log of the requests sent.
\<close>

type_synonym endpoint = "nat \<Rightarrow> request \<Rightarrow> reply"

definition generateContent :: "endpoint \<Rightarrow> request \<Rightarrow> request list \<Rightarrow> reply \<times> request list" where
  "generateContent ep req log = (ep (length log) req, log @ [req])"

subsection \<open>Data URLs\<close>

definition dataUrl_mimeType :: "string \<Rightarrow> string" where
  "dataUrl_mimeType u = js_substring u (js_indexOf u (CHR '':'') + 1) (js_indexOf u (CHR '';''))"

definition dataUrl_pureBase64 :: "string \<Rightarrow> string" where
  "dataUrl_pureBase64 u = js_substring_from u (js_indexOf u (CHR '','') + 1)"

definition inlinePart :: "string \<Rightarrow> part" where
  "inlinePart u = InlinePart (InlineData (dataUrl_pureBase64 u) (dataUrl_mimeType u))"

subsection \<open>Decoding an image response\<close>

definition firstCandidatePart :: "response \<Rightarrow> rpart option" where
  "firstCandidatePart r =
     (case candidates r of
        None \<Rightarrow> None
      | Some cs \<Rightarrow>
         (case cs of
            [] \<Rightarrow> None
          | c # _ \<Rightarrow>
             (case cand_content c of
                None \<Rightarrow> None
              | Some ct \<Rightarrow>
                 (case content_parts ct of
                    None \<Rightarrow> None
                  | Some ps \<Rightarrow> (case ps of [] \<Rightarrow> None | p # _ \<Rightarrow> Some p)))))"

definition decodeImage :: "string \<Rightarrow> response \<Rightarrow> string + string" where
  "decodeImage failure r =
     (case firstCandidatePart r of
        None \<Rightarrow> Inl failure
      | Some imagePart \<Rightarrow>
         (case part_inlineData imagePart of
            None \<Rightarrow> Inl failure
          | Some d \<Rightarrow> Inr (''data:image/png;base64,'' @ data d)))"

definition no_thumbnail_error :: string where
  "no_thumbnail_error = ''No thumbnail was generated by the model. The response may have been blocked due to safety settings.''"

definition no_edited_thumbnail_error :: string where
  "no_edited_thumbnail_error = ''No edited thumbnail was generated by the model. The response may have been blocked due to safety settings.''"

subsection \<open>generateThumbnail\<close>

definition prompt_intro :: string where
  "prompt_intro = ''**CRITICAL INSTRUCTION**: You are a professional graphic designer creating a complete YouTube thumbnail. The final output image MUST be exactly 1280x720 pixels with a 16:9 aspect ratio.'' @ nl @ nl"

definition prompt_title :: "string \<Rightarrow> string" where
  \<open>prompt_title title = ''The video title is "'' @ title @ ''".'' @ nl @ nl\<close>

definition prompt_language :: "Language \<Rightarrow> string" where
  "prompt_language language =
     (if language = ar
      then ''**Text Language**: Any text on the thumbnail must be in Arabic. Use a bold, modern, and highly readable Arabic font (like Cairo or Tajawal) suitable for headlines. Render all Arabic text correctly in RTL (right-to-left) format.'' @ nl @ nl
      else ''**Text Language**: Any text on the thumbnail must be in English. Use a bold, sans-serif font that's easy to read.'' @ nl @ nl)"

definition prompt_subjects :: "nat \<Rightarrow> string" where
  "prompt_subjects numSubjects =
     ''**Main Subjects**: You are provided with '' @ js_show_nat numSubjects @ '' image(s) of the main subject(s). You MUST use these images in the thumbnail. **CRITICAL RULE: DO NOT alter the facial features, expression, or likeness of the people in these photos.** You may perform background removal, cropping, and place them within the composition, but the person themselves must remain unchanged.'' @ nl @ nl"

definition prompt_image1 :: string where
  "prompt_image1 = ''- Image 1 is the main subject (or subject 1).'' @ nl"

definition prompt_image2 :: string where
  "prompt_image2 = ''- Image 2 is subject 2.'' @ nl"

definition prompt_layout :: "string \<Rightarrow> string" where
  \<open>prompt_layout layout = nl @ ''**Layout**: Arrange the subject(s) according to the "'' @ layout @ ''" layout. ''\<close>

definition wording_versus :: string where
  "wording_versus = ''Create a composition with the two subjects on opposing sides. ''"

definition wording_collaboration :: string where
  "wording_collaboration = ''Place the two subjects side-by-side in a friendly composition. ''"

definition wording_prominent :: string where
  "wording_prominent = ''Place the main subject(s) prominently. ''"

definition layoutWording :: "string \<Rightarrow> nat \<Rightarrow> string" where
  "layoutWording layout numSubjects =
     (if layout = ''Versus/Comparison'' \<and> numSubjects = 2 then wording_versus
      else if layout = ''Collaboration'' \<and> numSubjects = 2 then wording_collaboration
      else wording_prominent)"

definition prompt_placement :: string where
  "prompt_placement = ''The title text must be placed strategically and be highly visible.'' @ nl @ nl"

definition prompt_backgrounds :: string where
  "prompt_backgrounds = ''**Provided Background/Context Images**: You are also provided with context images. Integrate them artfully into the background design. They can be faded, blurred, or part of a collage to add depth.'' @ nl @ nl"

definition prompt_style :: "nat \<Rightarrow> string \<Rightarrow> string" where
  "prompt_style styleStrength styleDescription =
     ''**Design Style**: Adhere to the following design style with approximately '' @ js_show_nat styleStrength @ ''% strength. This style should influence the colors, text, effects, and overall mood: '' @ nl @ styleDescription @ nl @ nl"

definition prompt_closing :: string where
  "prompt_closing = ''Remember, generate a polished, professional, complete thumbnail, strictly adhering to the 1280x720 resolution and the rule about not altering the main subjects' faces.''"

text \<open>
  The body of \<^verbatim>\<open>generateThumbnail\<close> up to the call: \<open>parts\<close> and \<open>prompt\<close> are
  built side by side, in the order of the source, and the instruction is put in front
  of the image parts at the end (\<^verbatim>\<open>parts.unshift\<close>).
\<close>

definition thumbnailPromptParts ::
  "string \<Rightarrow> Language \<Rightarrow> nat \<Rightarrow> string option \<Rightarrow> string option \<Rightarrow> string list \<Rightarrow> string
     \<Rightarrow> string option \<Rightarrow> nat \<Rightarrow> string \<times> part list" where
  "thumbnailPromptParts title language numSubjects mainSubject1Base64 mainSubject2Base64
       backgroundImages layout styleDescription styleStrength =
     (let parts0 = [];
          prompt0 = prompt_intro;
          prompt1 = prompt0 @ prompt_title title;
          prompt2 = prompt1 @ prompt_language language;
          prompt3 = prompt2 @ prompt_subjects numSubjects;
          (parts1, prompt4) =
            (case mainSubject1Base64 of
               Some m1 \<Rightarrow>
                 if m1 \<noteq> [] then (parts0 @ [inlinePart m1], prompt3 @ prompt_image1)
                 else (parts0, prompt3)
             | None \<Rightarrow> (parts0, prompt3));
          (parts2, prompt5) =
            (case mainSubject2Base64 of
               Some m2 \<Rightarrow>
                 if m2 \<noteq> [] \<and> numSubjects = 2 then (parts1 @ [inlinePart m2], prompt4 @ prompt_image2)
                 else (parts1, prompt4)
             | None \<Rightarrow> (parts1, prompt4));
          prompt6 = prompt5 @ prompt_layout layout;
          prompt7 = prompt6 @ layoutWording layout numSubjects;
          prompt8 = prompt7 @ prompt_placement;
          (parts3, prompt9) =
            (if backgroundImages \<noteq> []
             then (parts2 @ map inlinePart backgroundImages, prompt8 @ prompt_backgrounds)
             else (parts2, prompt8));
          prompt10 =
            (case styleDescription of
               Some d \<Rightarrow> if d \<noteq> [] then prompt9 @ prompt_style styleStrength d else prompt9
             | None \<Rightarrow> prompt9);
          prompt11 = prompt10 @ prompt_closing
      in (prompt11, TextPart prompt11 # parts3))"

definition thumbnailRequest ::
  "string \<Rightarrow> Language \<Rightarrow> nat \<Rightarrow> string option \<Rightarrow> string option \<Rightarrow> string list \<Rightarrow> string
     \<Rightarrow> string option \<Rightarrow> nat \<Rightarrow> request" where
  "thumbnailRequest title language numSubjects mainSubject1Base64 mainSubject2Base64
       backgroundImages layout styleDescription styleStrength =
     \<lparr>model = ''gemini-2.5-flash-image'',
      req_contents = Parts (snd (thumbnailPromptParts title language numSubjects mainSubject1Base64
         mainSubject2Base64 backgroundImages layout styleDescription styleStrength)),
      req_config = ImageModality\<rparr>"

definition generateThumbnail ::
  "endpoint \<Rightarrow> string \<Rightarrow> Language \<Rightarrow> nat \<Rightarrow> string option \<Rightarrow> string option \<Rightarrow> string list
     \<Rightarrow> string \<Rightarrow> string option \<Rightarrow> nat \<Rightarrow> request list \<Rightarrow> (string + string) \<times> request list" where
  "generateThumbnail ep title language numSubjects mainSubject1Base64 mainSubject2Base64
       backgroundImages layout styleDescription styleStrength log =
     (case generateContent ep (thumbnailRequest title language numSubjects mainSubject1Base64
              mainSubject2Base64 backgroundImages layout styleDescription styleStrength) log of
        (Rejected e, log') \<Rightarrow> (Inl e, log')
      | (Replied r, log') \<Rightarrow> (decodeImage no_thumbnail_error r, log'))"

subsection \<open>analyzeStyleReferences\<close>

definition analyze_prompt :: string where
  "analyze_prompt = ''You are a professional graphic designer specializing in YouTube thumbnails. Analyze the following thumbnail image(s) and extract the core style elements. Provide a concise, bulleted list covering:'' @ nl
     @ ''- **Color Palette:** Describe the dominant and accent colors.'' @ nl
     @ ''- **Typography:** Describe the font style (e.g., bold, sans-serif, handwritten), weight, case (e.g., all caps), and typical placement.'' @ nl
     @ ''- **Composition:** Describe the layout (e.g., centered subject, rule of thirds, text on left).'' @ nl
     @ ''- **Effects & Vibe:** Describe any notable effects like glows, drop shadows, borders, or background styles (e.g., gradient, noisy texture) and the overall mood (e.g., energetic, professional, mysterious).''"

definition analyzeRequest :: "string list \<Rightarrow> request" where
  "analyzeRequest imagesBase64 =
     \<lparr>model = ''gemini-2.5-flash'',
      req_contents = Parts (TextPart analyze_prompt # map inlinePart imagesBase64),
      req_config = NoConfig\<rparr>"

definition analyzeStyleReferences ::
  "endpoint \<Rightarrow> string list \<Rightarrow> request list \<Rightarrow> (string + string) \<times> request list" where
  "analyzeStyleReferences ep imagesBase64 log =
     (case generateContent ep (analyzeRequest imagesBase64) log of
        (Rejected e, log') \<Rightarrow> (Inl e, log')
      | (Replied r, log') \<Rightarrow> (Inr (resp_text r), log'))"

subsection \<open>editThumbnail\<close>

definition edit_prompt :: "string \<Rightarrow> Language \<Rightarrow> string" where
  \<open>edit_prompt instruction language =
     ''You are an expert image editor. Take the provided YouTube thumbnail and apply this specific user instruction: "'' @ instruction @ ''". '' @ nl
     @ ''For example, 'change the '' @ (if language = ar then ''Arabic'' else ''English'') @ '' text to red' or 'make the background more vibrant'.'' @ nl
     @ ''**IMPORTANT**: If the instruction is about the person in the thumbnail (e.g., 'make my face look more excited'), you MUST NOT alter their original facial features. Instead, add effects AROUND them (like energy lines, glows) to convey the emotion. Preserve the original likeness.'' @ nl
     @ ''The output image must be a modified version of the original, maintaining the exact 1280x720 pixel dimensions and 16:9 aspect ratio.''\<close>

definition editRequest :: "string \<Rightarrow> string \<Rightarrow> Language \<Rightarrow> request" where
  "editRequest currentThumbnailBase64 instruction language =
     \<lparr>model = ''gemini-2.5-flash-image'',
      req_contents = Parts [inlinePart currentThumbnailBase64, TextPart (edit_prompt instruction language)],
      req_config = ImageModality\<rparr>"

definition editThumbnail ::
  "endpoint \<Rightarrow> string \<Rightarrow> string \<Rightarrow> Language \<Rightarrow> request list \<Rightarrow> (string + string) \<times> request list" where
  "editThumbnail ep currentThumbnailBase64 instruction language log =
     (case generateContent ep (editRequest currentThumbnailBase64 instruction language) log of
        (Rejected e, log') \<Rightarrow> (Inl e, log')
      | (Replied r, log') \<Rightarrow> (decodeImage no_edited_thumbnail_error r, log'))"

subsection \<open>generateTitles and getImprovementSuggestions\<close>

text \<open>
  \<^verbatim>\<open>JSON.parse\<close> is a primitive of the platform and a parameter of the model
  (\<open>None\<close> when it throws).
\<close>

datatype json = JNull | JBool bool | JNumber int | JString string | JArray "json list"
  | JObject "(string \<times> json) list"

type_synonym json_parser = "string \<Rightarrow> json option"

fun json_string :: "json \<Rightarrow> string option" where
  "json_string (JString s) = Some s"
| "json_string _ = None"

text \<open>
  The shared tail of both functions: the parsed text is returned when it is an array of
  strings; every other outcome, the inner \<^verbatim>\<open>throw\<close> included, ends in the error of
  the \<^verbatim>\<open>catch\<close> block.
\<close>

definition decodeStringArray :: "json_parser \<Rightarrow> string \<Rightarrow> response \<Rightarrow> string + string list" where
  "decodeStringArray parse failure r =
     (let jsonText = js_trim (resp_text r)
      in case parse jsonText of
           Some (JArray xs) \<Rightarrow>
             (if list_all (\<lambda>t. json_string t \<noteq> None) xs then Inr (map (\<lambda>t. the (json_string t)) xs)
              else Inl failure)
         | _ \<Rightarrow> Inl failure)"

definition titles_prompt :: "string \<Rightarrow> Language \<Rightarrow> string" where
  \<open>titles_prompt topic language =
     (if language = ar
      then ''You are an expert YouTube content strategist specializing in the Middle East and North Africa (MENA) region. Generate 20 diverse, click-worthy YouTube titles in Arabic for the topic''
      else ''You are an expert YouTube content strategist. Generate 20 diverse, click-worthy YouTube titles for the topic'')
     @ '': "'' @ topic @ ''". The titles must be under 70 characters, use proven engagement patterns (curiosity gaps, numbers, emotional triggers), and vary in style (how-tos, questions, listicles, bold statements). Ensure they are authentic to the content. Return the result as a JSON array of strings.''\<close>

definition titlesRequest :: "string \<Rightarrow> Language \<Rightarrow> request" where
  "titlesRequest topic language =
     \<lparr>model = ''gemini-2.5-flash'',
      req_contents = Prompt (titles_prompt topic language),
      req_config = JsonStringArray\<rparr>"

definition generateTitles ::
  "json_parser \<Rightarrow> endpoint \<Rightarrow> string \<Rightarrow> Language \<Rightarrow> request list \<Rightarrow> (string + string list) \<times> request list" where
  "generateTitles parse ep topic language log =
     (case generateContent ep (titlesRequest topic language) log of
        (Rejected e, log') \<Rightarrow> (Inl e, log')
      | (Replied r, log') \<Rightarrow>
          (decodeStringArray parse ''Could not parse the generated titles from the AI. Please try again.'' r, log'))"

definition suggestions_prompt :: "string \<Rightarrow> Language \<Rightarrow> string" where
  \<open>suggestions_prompt title language =
     ''You are a YouTube growth expert. Analyze the video title: "'' @ title @ ''". '' @ nl
     @ ''Provide 3 short, actionable suggestions in '' @ (if language = ar then ''Arabic'' else ''English'') @ '' to improve a thumbnail for this video. '' @ nl
     @ ''The suggestions should be phrased as simple commands a user could give to an AI editor for editing the thumbnail. '' @ nl
     @ ''For example: "Add a glowing outline around the text" or "Use a brighter, more eye-catching background color". '' @ nl
     @ ''Return the result as a JSON array of 3 unique string suggestions.''\<close>

definition suggestionsRequest :: "string \<Rightarrow> Language \<Rightarrow> request" where
  "suggestionsRequest title language =
     \<lparr>model = ''gemini-2.5-flash'',
      req_contents = Prompt (suggestions_prompt title language),
      req_config = JsonStringArray\<rparr>"

definition getImprovementSuggestions ::
  "json_parser \<Rightarrow> endpoint \<Rightarrow> string \<Rightarrow> Language \<Rightarrow> request list \<Rightarrow> (string + string list) \<times> request list" where
  "getImprovementSuggestions parse ep title language log =
     (case generateContent ep (suggestionsRequest title language) log of
        (Rejected e, log') \<Rightarrow> (Inl e, log')
      | (Replied r, log') \<Rightarrow> (decodeStringArray parse ''Could not parse suggestions from the AI.'' r, log'))"

section \<open>The thumbnail workspace (components/ThumbnailGenerator.tsx)\<close>

datatype LoadingState = NONE | ANALYZING | GENERATING | EDITING | SUGGESTING

datatype LayoutPreset = Default | Versus_Comparison | Collaboration | Explainer

text \<open>A layout preset is its own name at run time.\<close>

fun layoutName :: "LayoutPreset \<Rightarrow> string" where
  "layoutName Default = ''Default''"
| "layoutName Versus_Comparison = ''Versus/Comparison''"
| "layoutName Collaboration = ''Collaboration''"
| "layoutName Explainer = ''Explainer''"

datatype UploadKind = main1 | main2 | background | reference

text \<open>
  The props (\<open>title\<close>, \<open>ws_language\<close>) and the state variables of the component. An
  asynchronous handler is modelled as one step, from the event to the settled promise;
  it takes the log of the requests sent so far and returns it extended.
\<close>

record Workspace =
  title :: string
  ws_language :: Language
  numSubjects :: nat
  mainSubject1 :: "UploadedImage option"
  mainSubject2 :: "UploadedImage option"
  backgroundImages :: "UploadedImage list"
  layoutPreset :: LayoutPreset
  referenceFiles :: "File list"
  referencePreviews :: "string list"
  analyzedStyle :: "string option"
  styleStrength :: nat
  thumbnailHistory :: "string list"
  currentIndex :: int
  editInstruction :: string
  suggestions :: "string list"
  loading :: LoadingState
  ws_error :: "string option"

definition initialWorkspace :: "string \<Rightarrow> Language \<Rightarrow> Workspace" where
  "initialWorkspace t l =
     \<lparr>title = t, ws_language = l, numSubjects = 1, mainSubject1 = None, mainSubject2 = None,
      backgroundImages = [], layoutPreset = Default, referenceFiles = [], referencePreviews = [],
      analyzedStyle = None, styleStrength = 80, thumbnailHistory = [], currentIndex = - 1,
      editInstruction = [], suggestions = [], loading = NONE, ws_error = None\<rparr>"

text \<open>\<^verbatim>\<open>thumbnailHistory[currentIndex] || null\<close>: an index outside the array reads
  \<^verbatim>\<open>undefined\<close>, and an empty string is falsy.\<close>

definition currentThumbnail :: "Workspace \<Rightarrow> string option" where
  "currentThumbnail s =
     (if 0 \<le> currentIndex s \<and> currentIndex s < int (length (thumbnailHistory s))
      then (let t = thumbnailHistory s ! nat (currentIndex s) in if t = [] then None else Some t)
      else None)"

definition canUndo :: "Workspace \<Rightarrow> bool" where
  "canUndo s \<longleftrightarrow> currentIndex s > 0"

definition canRedo :: "Workspace \<Rightarrow> bool" where
  "canRedo s \<longleftrightarrow> currentIndex s < int (length (thumbnailHistory s)) - 1"

definition updateHistory :: "string \<Rightarrow> Workspace \<Rightarrow> Workspace" where
  "updateHistory newThumbnail s =
     (let newHistory = js_slice0 (thumbnailHistory s) (currentIndex s + 1) @ [newThumbnail]
      in s\<lparr>thumbnailHistory := newHistory, currentIndex := int (length newHistory) - 1\<rparr>)"

definition handleUndo :: "Workspace \<Rightarrow> Workspace" where
  "handleUndo s = (if canUndo s then s\<lparr>currentIndex := currentIndex s - 1\<rparr> else s)"

definition handleRedo :: "Workspace \<Rightarrow> Workspace" where
  "handleRedo s = (if canRedo s then s\<lparr>currentIndex := currentIndex s + 1\<rparr> else s)"

text \<open>
  \<^verbatim>\<open>handleFileChange\<close>. In the reference branch the files are stored before the
  previews are awaited, and in the main-subject branch the error is cleared before the
  preview is awaited; a failed read leaves the rest of the branch undone.
\<close>

definition handleFileChange :: "encoder \<Rightarrow> UploadKind \<Rightarrow> File list \<Rightarrow> Workspace \<Rightarrow> Workspace" where
  "handleFileChange fileToBase64 type files s =
     (if files = [] then s
      else if type = reference then
        (let newFiles = take 3 (referenceFiles s @ files);
             s1 = s\<lparr>referenceFiles := newFiles\<rparr>
         in case those (map fileToBase64 newFiles) of
              None \<Rightarrow> s1
            | Some previews \<Rightarrow> s1\<lparr>referencePreviews := previews, analyzedStyle := None\<rparr>)
      else if type = background then
        (case those (map (\<lambda>f. map_option (\<lambda>p. \<lparr>file = f, preview = p\<rparr>) (fileToBase64 f)) files) of
           None \<Rightarrow> s
         | Some newImages \<Rightarrow> s\<lparr>backgroundImages := take 5 (backgroundImages s @ newImages)\<rparr>)
      else
        (let f = hd files
         in if file_size f > 4 * 1024 * 1024
            then s\<lparr>ws_error := Some ''Image file is too large. Max 4MB.''\<rparr>
            else
              (let s1 = s\<lparr>ws_error := None\<rparr>
               in case fileToBase64 f of
                    None \<Rightarrow> s1
                  | Some p \<Rightarrow>
                      (let newImage = \<lparr>file = f, preview = p\<rparr>
                       in if type = main1 then s1\<lparr>mainSubject1 := Some newImage\<rparr>
                          else s1\<lparr>mainSubject2 := Some newImage\<rparr>))))"

definition handleRemoveReference :: "nat \<Rightarrow> Workspace \<Rightarrow> Workspace" where
  "handleRemoveReference indexToRemove s =
     (let newFiles = filter_index_neq indexToRemove (referenceFiles s);
          newPreviews = filter_index_neq indexToRemove (referencePreviews s);
          s1 = s\<lparr>referenceFiles := newFiles, referencePreviews := newPreviews\<rparr>
      in if truthy (analyzedStyle s) then s1\<lparr>analyzedStyle := None\<rparr> else s1)"

definition handleRemoveBackgroundImage :: "nat \<Rightarrow> Workspace \<Rightarrow> Workspace" where
  "handleRemoveBackgroundImage indexToRemove s =
     s\<lparr>backgroundImages := filter_index_neq indexToRemove (backgroundImages s)\<rparr>"

definition handleAnalyzeStyle :: "endpoint \<Rightarrow> Workspace \<times> request list \<Rightarrow> Workspace \<times> request list" where
  "handleAnalyzeStyle ep = (\<lambda>(s, log).
     if referencePreviews s = [] then (s, log)
     else
       (let s1 = s\<lparr>loading := ANALYZING, ws_error := None\<rparr>
        in case analyzeStyleReferences ep (referencePreviews s) log of
             (Inr style, log') \<Rightarrow> (s1\<lparr>analyzedStyle := Some style, loading := NONE\<rparr>, log')
           | (Inl e, log') \<Rightarrow>
               (s1\<lparr>ws_error := Some ''Failed to analyze style references.'', loading := NONE\<rparr>, log')))"

text \<open>
  \<^verbatim>\<open>handleGenerateClick\<close>: the guard, then the resets, then the \<^verbatim>\<open>try\<close> block with
  the implicit style analysis and the generation; a failure of either call ends in the
  \<^verbatim>\<open>catch\<close> block, and \<^verbatim>\<open>finally\<close> resets the loading state.
\<close>

definition handleGenerateClick :: "endpoint \<Rightarrow> Workspace \<times> request list \<Rightarrow> Workspace \<times> request list" where
  "handleGenerateClick ep = (\<lambda>(s, log).
     if mainSubject1 s = None \<or> (numSubjects s = 2 \<and> mainSubject2 s = None)
     then (s\<lparr>ws_error := Some ''Please upload all main subject photos.''\<rparr>, log)
     else
       (let s1 = s\<lparr>loading := GENERATING, ws_error := None, suggestions := []\<rparr>;
            failed = (\<lambda>st. st\<lparr>ws_error := Some ''Failed to generate thumbnail.'', loading := NONE\<rparr>);
            generate = (\<lambda>styleToUse st lg.
              (let backgroundPreviews = map preview (backgroundImages s);
                   mainSubject1B64 = map_option preview (mainSubject1 s);
                   mainSubject2B64 = map_option preview (mainSubject2 s)
               in case generateThumbnail ep (title s) (ws_language s) (numSubjects s) mainSubject1B64
                         mainSubject2B64 backgroundPreviews (layoutName (layoutPreset s)) styleToUse
                         (styleStrength s) lg of
                    (Inr newThumbnail, lg') \<Rightarrow> ((updateHistory newThumbnail st)\<lparr>loading := NONE\<rparr>, lg')
                  | (Inl e, lg') \<Rightarrow> (failed st, lg')))
        in if referencePreviews s \<noteq> [] \<and> \<not> truthy (analyzedStyle s)
           then
             (case analyzeStyleReferences ep (referencePreviews s) log of
                (Inr style, log') \<Rightarrow> generate (Some style) (s1\<lparr>analyzedStyle := Some style\<rparr>) log'
              | (Inl e, log') \<Rightarrow> (failed s1, log'))
           else generate (analyzedStyle s) s1 log))"

definition handleApplyEdit :: "endpoint \<Rightarrow> string \<Rightarrow> Workspace \<times> request list \<Rightarrow> Workspace \<times> request list" where
  "handleApplyEdit ep instruction = (\<lambda>(s, log).
     case currentThumbnail s of
       None \<Rightarrow> (s, log)
     | Some cur \<Rightarrow>
         if js_trim instruction = [] then (s, log)
         else
           (let s1 = s\<lparr>loading := EDITING, ws_error := None\<rparr>
            in case editThumbnail ep cur instruction (ws_language s) log of
                 (Inr newThumbnail, log') \<Rightarrow>
                   ((updateHistory newThumbnail s1)\<lparr>editInstruction := [], loading := NONE\<rparr>, log')
               | (Inl e, log') \<Rightarrow>
                   (s1\<lparr>ws_error := Some ''Failed to apply the edit.'', loading := NONE\<rparr>, log')))"

definition handleGetSuggestions ::
  "json_parser \<Rightarrow> endpoint \<Rightarrow> Workspace \<times> request list \<Rightarrow> Workspace \<times> request list" where
  "handleGetSuggestions parse ep = (\<lambda>(s, log).
     (let s1 = s\<lparr>loading := SUGGESTING\<rparr>
      in case getImprovementSuggestions parse ep (title s) (ws_language s) log of
           (Inr newSuggestions, log') \<Rightarrow> (s1\<lparr>suggestions := newSuggestions, loading := NONE\<rparr>, log')
         | (Inl e, log') \<Rightarrow> (s1\<lparr>loading := NONE\<rparr>, log')))"

text \<open>The effect that runs after a render in which \<open>currentThumbnail\<close> has changed.\<close>

definition currentThumbnailEffect ::
  "json_parser \<Rightarrow> endpoint \<Rightarrow> Workspace \<times> request list \<Rightarrow> Workspace \<times> request list" where
  "currentThumbnailEffect parse ep = (\<lambda>(s, log).
     if currentThumbnail s \<noteq> None \<and> suggestions s = [] \<and> loading s = NONE
     then handleGetSuggestions parse ep (s, log)
     else (s, log))"

section \<open>The session (App.tsx)\<close>

record Session =
  appState :: AppState
  topic :: string
  generatedTitles :: "string list"
  selectedTitle :: "string option"
  language :: Language
  error :: "string option"

definition initialSession :: Session where
  "initialSession =
     \<lparr>appState = TITLE_INPUT, topic = [], generatedTitles = [], selectedTitle = None,
      language = en, error = None\<rparr>"

text \<open>
  \<^verbatim>\<open>handleGenerateTitles\<close> in its two halves: what runs before the request is awaited,
  and what runs once it has settled.
\<close>

definition handleGenerateTitles_submit :: "string \<Rightarrow> Language \<Rightarrow> Session \<Rightarrow> Session" where
  "handleGenerateTitles_submit newTopic lang s =
     s\<lparr>topic := newTopic, language := lang, appState := GENERATING_TITLES, error := None\<rparr>"

definition handleGenerateTitles_settle :: "string + string list \<Rightarrow> Session \<Rightarrow> Session" where
  "handleGenerateTitles_settle outcome s =
     (case outcome of
        Inr titles \<Rightarrow> s\<lparr>generatedTitles := titles, appState := TITLES_DISPLAYED\<rparr>
      | Inl e \<Rightarrow> s\<lparr>error := Some ''Failed to generate titles. Please try again.'', appState := TITLE_INPUT\<rparr>)"

definition handleGenerateTitles ::
  "json_parser \<Rightarrow> endpoint \<Rightarrow> string \<Rightarrow> Language \<Rightarrow> Session \<times> request list \<Rightarrow> Session \<times> request list" where
  "handleGenerateTitles parse ep newTopic lang = (\<lambda>(s, log).
     (let s1 = handleGenerateTitles_submit newTopic lang s
      in case generateTitles parse ep newTopic lang log of
           (outcome, log') \<Rightarrow> (handleGenerateTitles_settle outcome s1, log')))"

definition handleTitleSelect :: "string \<Rightarrow> Session \<Rightarrow> Session" where
  "handleTitleSelect t s = s\<lparr>selectedTitle := Some t, appState := THUMBNAIL_INPUT\<rparr>"

definition handleStartOver :: "Session \<Rightarrow> Session" where
  "handleStartOver s =
     s\<lparr>appState := TITLE_INPUT, topic := [], generatedTitles := [], selectedTitle := None,
       error := None\<rparr>"

definition onBack :: "Session \<Rightarrow> Session" where
  "onBack s = s\<lparr>appState := TITLES_DISPLAYED\<rparr>"

section \<open>Notions used to state the properties\<close>

text \<open>
  The invariant of the thumbnail history: the cursor is -1 while the history is empty,
  and a valid index once it is not.
\<close>

definition history_ok :: "Workspace \<Rightarrow> bool" where
  "history_ok s \<longleftrightarrow>
     (if thumbnailHistory s = [] then currentIndex s = - 1
      else 0 \<le> currentIndex s \<and> currentIndex s < int (length (thumbnailHistory s)))"

text \<open>The guard of \<^verbatim>\<open>handleGenerateClick\<close>: the required subject photos are missing.\<close>

definition subjects_missing :: "Workspace \<Rightarrow> bool" where
  "subjects_missing s \<longleftrightarrow> mainSubject1 s = None \<or> (numSubjects s = 2 \<and> mainSubject2 s = None)"

text \<open>
  In the words of the specification, the image payloads that a response returns: the
  inline data of all parts of all candidates, in order; the first of them is
  \<open>firstImagePayload\<close>.
\<close>

definition candidateParts :: "candidate \<Rightarrow> rpart list" where
  "candidateParts c =
     (case cand_content c of
        None \<Rightarrow> []
      | Some ct \<Rightarrow> (case content_parts ct of None \<Rightarrow> [] | Some ps \<Rightarrow> ps))"

definition responseParts :: "response \<Rightarrow> rpart list" where
  "responseParts r = (case candidates r of None \<Rightarrow> [] | Some cs \<Rightarrow> concat (map candidateParts cs))"

definition imagePayloads :: "response \<Rightarrow> string list" where
  "imagePayloads r = map data (List.map_filter part_inlineData (responseParts r))"

definition firstImagePayload :: "response \<Rightarrow> string option" where
  "firstImagePayload r = (case imagePayloads r of [] \<Rightarrow> None | d # _ \<Rightarrow> Some d)"

text \<open>
  The image part that a subject slot contributes when it is used: none for null and for
  the empty string.
\<close>

definition subjectPart :: "string option \<Rightarrow> part list" where
  "subjectPart m = (case m of None \<Rightarrow> [] | Some u \<Rightarrow> if u \<noteq> [] then [inlinePart u] else [])"

subsection \<open>Concrete scenarios\<close>

definition photo1 :: UploadedImage where
  "photo1 = \<lparr>file = \<lparr>file_name = ''me.png'', file_size = 2048\<rparr>, preview = ''data:image/png;base64,AAA''\<rparr>"

definition photo2 :: UploadedImage where
  "photo2 = \<lparr>file = \<lparr>file_name = ''you.jpg'', file_size = 4096\<rparr>, preview = ''data:image/jpeg;base64,BBB''\<rparr>"

text \<open>A workspace with the history [A, B, C], the cursor at A, and one suggestion.\<close>

definition ws_ABC :: Workspace where
  "ws_ABC = (initialWorkspace ''My title'' en)
     \<lparr>mainSubject1 := Some photo1, thumbnailHistory := [''A'', ''B'', ''C''], currentIndex := 0,
      suggestions := [''Add a glowing outline around the text'']\<rparr>"

text \<open>A response whose first part is an image, and one whose image comes after a text part.\<close>

definition image_first :: response where
  "image_first = Response [] (Some [Candidate (Some (Content (Some
     [RPart None (Some (InlineData ''D'' ''image/png''))])))])"

definition text_then_image :: response where
  "text_then_image = Response [] (Some [Candidate (Some (Content (Some
     [RPart (Some ''Here is your thumbnail.'') None,
      RPart None (Some (InlineData ''D'' ''image/png''))])))])"

definition ep_image_first :: endpoint where
  "ep_image_first n req = Replied image_first"

definition ep_text_then_image :: endpoint where
  "ep_text_then_image n req = Replied text_then_image"

definition ep_down :: endpoint where
  "ep_down n req = Rejected ''503''"

text \<open>
  A session in which titles were generated for the topic "cats" in Arabic; the same
  session after a second request, for "dogs", has failed; and the first session after a
  title was selected.
\<close>

definition session_titles :: Session where
  "session_titles =
     handleGenerateTitles_settle (Inr [''Cats!'']) (handleGenerateTitles_submit ''cats'' ar initialSession)"

definition session_failed :: Session where
  "session_failed =
     handleGenerateTitles_settle (Inl ''503'') (handleGenerateTitles_submit ''dogs'' en session_titles)"

definition session_workspace :: Session where
  "session_workspace = handleTitleSelect ''Cats!'' session_titles"

text \<open>The workspace of \<open>ws_ABC\<close> switched to two subjects, with one photo only.\<close>

definition ws_two_subjects :: Workspace where
  "ws_two_subjects = ws_ABC\<lparr>numSubjects := 2\<rparr>"

text \<open>
  The workspace of \<open>ws_ABC\<close> with one style reference that has been analysed, a new
  reference file, and an encoder whose reads succeed.
\<close>

definition ws_styled :: Workspace where
  "ws_styled = ws_ABC
     \<lparr>referenceFiles := [\<lparr>file_name = ''ref.png'', file_size = 1024\<rparr>],
      referencePreviews := [''data:image/png;base64,RRR''],
      analyzedStyle := Some ''Bold yellow text on a dark background''\<rparr>"

definition new_reference :: File where
  "new_reference = \<lparr>file_name = ''other.png'', file_size = 512\<rparr>"

definition enc_ok :: encoder where
  "enc_ok f = Some (''data:image/png;base64,'' @ file_name f)"

text \<open>A response without candidates.\<close>

definition no_candidates :: response where
  "no_candidates = Response [] None"

text \<open>The workspace of \<open>ws_ABC\<close> with a second photo stored, still in one-subject mode.\<close>

definition ws_second_stored :: Workspace where
  "ws_second_stored = ws_ABC\<lparr>mainSubject2 := Some photo2, layoutPreset := Versus_Comparison\<rparr>"

section \<open>Auxiliary facts\<close>

subsection \<open>The history and its cursor\<close>

lemma js_slice0_take: "- 1 \<le> i \<Longrightarrow> js_slice0 xs (i + 1) = take (nat (i + 1)) xs"
  by (auto simp: js_slice0_def Let_def min_def)

lemma history_ok_initial: "history_ok (initialWorkspace t l)"
  by (simp add: history_ok_def initialWorkspace_def)

lemma history_ok_cursor: "history_ok s \<Longrightarrow> - 1 \<le> currentIndex s \<and> currentIndex s < int (length (thumbnailHistory s))"
  by (simp add: history_ok_def split: if_splits)

lemma updateHistory_history:
  "history_ok s \<Longrightarrow> thumbnailHistory (updateHistory t s) = take (nat (currentIndex s + 1)) (thumbnailHistory s) @ [t]"
  using history_ok_cursor [of s] by (simp add: updateHistory_def Let_def js_slice0_take)

lemma updateHistory_cursor:
  "history_ok s \<Longrightarrow> currentIndex (updateHistory t s) = currentIndex s + 1"
  using history_ok_cursor [of s] by (auto simp: updateHistory_def Let_def js_slice0_take min_def)

lemma updateHistory_ok: "history_ok s \<Longrightarrow> history_ok (updateHistory t s)"
  using history_ok_cursor [of s] by (auto simp: updateHistory_def Let_def js_slice0_take history_ok_def min_def)

lemma handleUndo_ok: "history_ok s \<Longrightarrow> history_ok (handleUndo s)"
  by (auto simp: handleUndo_def canUndo_def history_ok_def split: if_splits)

lemma handleRedo_ok: "history_ok s \<Longrightarrow> history_ok (handleRedo s)"
  by (auto simp: handleRedo_def canRedo_def history_ok_def split: if_splits)

lemma handleUndo_idle: "currentIndex s \<le> 0 \<Longrightarrow> (handleUndo ^^ n) s = s"
  by (induction n) (simp_all add: handleUndo_def canUndo_def)

lemma handleRedo_idle: "int (length (thumbnailHistory s)) - 1 \<le> currentIndex s \<Longrightarrow> (handleRedo ^^ n) s = s"
  by (induction n) (simp_all add: handleRedo_def canRedo_def)

lemma updateHistory_fields:
  "thumbnailHistory (updateHistory t (s\<lparr>loading := l, ws_error := e\<rparr>)) = thumbnailHistory (updateHistory t s)"
  "currentIndex (updateHistory t (s\<lparr>loading := l, ws_error := e\<rparr>)) = currentIndex (updateHistory t s)"
  "thumbnailHistory (updateHistory t (s\<lparr>loading := l, ws_error := e, suggestions := g\<rparr>)) = thumbnailHistory (updateHistory t s)"
  "currentIndex (updateHistory t (s\<lparr>loading := l, ws_error := e, suggestions := g\<rparr>)) = currentIndex (updateHistory t s)"
  "thumbnailHistory (updateHistory t (s\<lparr>loading := l, ws_error := e, suggestions := g, analyzedStyle := a\<rparr>)) = thumbnailHistory (updateHistory t s)"
  "currentIndex (updateHistory t (s\<lparr>loading := l, ws_error := e, suggestions := g, analyzedStyle := a\<rparr>)) = currentIndex (updateHistory t s)"
  by (simp_all add: updateHistory_def Let_def)

lemma updateHistory_other:
  "ws_error (updateHistory t s) = ws_error s"
  "suggestions (updateHistory t s) = suggestions s"
  "loading (updateHistory t s) = loading s"
  "analyzedStyle (updateHistory t s) = analyzedStyle s"
  "editInstruction (updateHistory t s) = editInstruction s"
  by (simp_all add: updateHistory_def Let_def)

lemma handleGenerateClick_rejected:
  "subjects_missing s \<Longrightarrow>
     handleGenerateClick ep (s, log) = (s\<lparr>ws_error := Some ''Please upload all main subject photos.''\<rparr>, log)"
  by (simp add: handleGenerateClick_def subjects_missing_def)

lemma handleGenerateClick_outcome:
  assumes "\<not> subjects_missing s" and "handleGenerateClick ep (s, log) = (s', log')"
  shows "(ws_error s' = Some ''Failed to generate thumbnail.''
            \<and> thumbnailHistory s' = thumbnailHistory s \<and> currentIndex s' = currentIndex s)
       \<or> (ws_error s' = None
            \<and> (\<exists>t r. log' \<noteq> [] \<and> ep (length log' - 1) (last log') = Replied r
                  \<and> decodeImage no_thumbnail_error r = Inr t
                  \<and> thumbnailHistory s' = thumbnailHistory (updateHistory t s)
                  \<and> currentIndex s' = currentIndex (updateHistory t s)))"
  using assms
  unfolding handleGenerateClick_def subjects_missing_def generateThumbnail_def
    analyzeStyleReferences_def generateContent_def Let_def
  by (auto split: prod.splits sum.splits reply.splits if_splits simp: updateHistory_fields updateHistory_other)

lemma handleApplyEdit_outcome:
  assumes "handleApplyEdit ep instruction (s, log) = (s', log')"
  shows "(s' = s \<and> log' = log \<and> (currentThumbnail s = None \<or> js_trim instruction = []))
       \<or> (ws_error s' = Some ''Failed to apply the edit.'' \<and> log' \<noteq> log
            \<and> thumbnailHistory s' = thumbnailHistory s \<and> currentIndex s' = currentIndex s)
       \<or> (ws_error s' = None \<and> log' \<noteq> log
            \<and> (\<exists>t r. ep (length log' - 1) (last log') = Replied r
                  \<and> decodeImage no_edited_thumbnail_error r = Inr t
                  \<and> thumbnailHistory s' = thumbnailHistory (updateHistory t s)
                  \<and> currentIndex s' = currentIndex (updateHistory t s)))"
  using assms
  unfolding handleApplyEdit_def editThumbnail_def generateContent_def Let_def
  by (auto split: prod.splits sum.splits reply.splits if_splits option.splits simp: updateHistory_fields updateHistory_other)

lemma decode_image_first: "decodeImage m image_first = Inr ''data:image/png;base64,D''"
  by (simp add: image_first_def decodeImage_def firstCandidatePart_def)

lemma ws_ABC_current: "currentThumbnail ws_ABC = Some ''A''"
  by (simp add: currentThumbnail_def ws_ABC_def initialWorkspace_def)

lemma trim_yellow: "js_trim ''make the text yellow'' = ''make the text yellow''"
  by (simp add: js_trim_def js_whitespace_def)

text \<open>Every handler of the workspace keeps the invariant of the history.\<close>

lemma history_ok_same:
  "thumbnailHistory s' = thumbnailHistory s \<Longrightarrow> currentIndex s' = currentIndex s \<Longrightarrow>
     history_ok s' = history_ok s"
  by (simp add: history_ok_def)

lemma handleGenerateClick_ok:
  assumes "history_ok s"
  shows "history_ok (fst (handleGenerateClick ep (s, log)))"
proof (cases "subjects_missing s")
  case True
  then show ?thesis
    using assms by (simp add: handleGenerateClick_rejected history_ok_def)
next
  case False
  obtain s' log' where run: "handleGenerateClick ep (s, log) = (s', log')"
    by fastforce
  from handleGenerateClick_outcome [OF False run]
  consider "thumbnailHistory s' = thumbnailHistory s \<and> currentIndex s' = currentIndex s"
    | t where "thumbnailHistory s' = thumbnailHistory (updateHistory t s)
        \<and> currentIndex s' = currentIndex (updateHistory t s)"
    by blast
  then have "history_ok s'"
  proof cases
    case 1
    then show ?thesis using history_ok_same [of s' s] assms by blast
  next
    case 2
    then show ?thesis
      using history_ok_same [of s' "updateHistory t s"] updateHistory_ok [OF assms, of t] by blast
  qed
  then show ?thesis by (simp add: run)
qed

lemma handleApplyEdit_ok:
  assumes "history_ok s"
  shows "history_ok (fst (handleApplyEdit ep instruction (s, log)))"
proof -
  obtain s' log' where run: "handleApplyEdit ep instruction (s, log) = (s', log')"
    by fastforce
  from handleApplyEdit_outcome [OF run]
  consider "thumbnailHistory s' = thumbnailHistory s \<and> currentIndex s' = currentIndex s"
    | t where "thumbnailHistory s' = thumbnailHistory (updateHistory t s)
        \<and> currentIndex s' = currentIndex (updateHistory t s)"
    by blast
  then have "history_ok s'"
  proof cases
    case 1
    then show ?thesis using history_ok_same [of s' s] assms by blast
  next
    case 2
    then show ?thesis
      using history_ok_same [of s' "updateHistory t s"] updateHistory_ok [OF assms, of t] by blast
  qed
  then show ?thesis by (simp add: run)
qed

lemma handleFileChange_ok: "history_ok s \<Longrightarrow> history_ok (handleFileChange enc kind files s)"
  by (auto simp: handleFileChange_def history_ok_def Let_def split: option.splits)

lemma handleRemoveReference_ok: "history_ok s \<Longrightarrow> history_ok (handleRemoveReference i s)"
  by (simp add: handleRemoveReference_def history_ok_def Let_def)

lemma handleAnalyzeStyle_ok: "history_ok s \<Longrightarrow> history_ok (fst (handleAnalyzeStyle ep (s, log)))"
  by (simp add: handleAnalyzeStyle_def analyzeStyleReferences_def generateContent_def history_ok_def
      Let_def split: reply.splits)

lemma currentThumbnailEffect_ok:
  "history_ok s \<Longrightarrow> history_ok (fst (currentThumbnailEffect parse ep (s, log)))"
  by (simp add: currentThumbnailEffect_def handleGetSuggestions_def getImprovementSuggestions_def
      generateContent_def history_ok_def Let_def split: reply.splits sum.splits)

subsection \<open>Requests sent and suggestions kept\<close>

lemma generateTitles_log: "snd (generateTitles parse ep tp lang log) = log @ [titlesRequest tp lang]"
  by (simp add: generateTitles_def generateContent_def split: reply.splits)

lemma handleApplyEdit_suggestions:
  "suggestions (fst (handleApplyEdit ep instruction (s, log))) = suggestions s"
  unfolding handleApplyEdit_def editThumbnail_def generateContent_def Let_def
  by (simp add: updateHistory_other split: option.splits reply.splits sum.splits)

lemma handleGenerateClick_suggestions:
  "\<not> subjects_missing s \<Longrightarrow> suggestions (fst (handleGenerateClick ep (s, log))) = []"
  unfolding handleGenerateClick_def subjects_missing_def generateThumbnail_def
    analyzeStyleReferences_def generateContent_def Let_def
  by (auto simp: updateHistory_other split: reply.splits sum.splits)

subsection \<open>Style references and image responses\<close>

lemma handleRemoveReference_style:
  "analyzedStyle (handleRemoveReference i s) = (if truthy (analyzedStyle s) then None else analyzedStyle s)"
  by (simp add: handleRemoveReference_def Let_def)

lemma handleFileChange_reference_style:
  "analyzedStyle (handleFileChange enc reference files s) =
     (if files \<noteq> [] \<and> those (map enc (take 3 (referenceFiles s @ files))) \<noteq> None then None
      else analyzedStyle s)"
  by (auto simp: handleFileChange_def Let_def split: option.splits)

lemma firstCandidatePart_responseParts:
  "firstCandidatePart r = Some p \<Longrightarrow> \<exists>ps. responseParts r = p # ps"
  by (auto simp: firstCandidatePart_def responseParts_def candidateParts_def
      split: option.splits list.splits)

lemma decodeImage_first_part:
  "firstCandidatePart r = Some p \<Longrightarrow> part_inlineData p = Some d \<Longrightarrow>
     decodeImage m r = Inr (''data:image/png;base64,'' @ data d) \<and> firstImagePayload r = Some (data d)"
  using firstCandidatePart_responseParts [of r p]
  by (auto simp: decodeImage_def firstImagePayload_def imagePayloads_def List.map_filter_simps)

lemma decodeImage_no_first_part:
  "(\<forall>p. firstCandidatePart r = Some p \<longrightarrow> part_inlineData p = None) \<Longrightarrow> decodeImage m r = Inl m"
  by (auto simp: decodeImage_def split: option.splits)

lemma decodeImage_no_image:
  assumes "firstImagePayload r = None"
  shows "decodeImage m r = Inl m"
proof (rule decodeImage_no_first_part, intro allI impI)
  fix p assume fp: "firstCandidatePart r = Some p"
  show "part_inlineData p = None"
  proof (cases "part_inlineData p")
    case None then show ?thesis .
  next
    case (Some d)
    from decodeImage_first_part [OF fp Some] assms show ?thesis by simp
  qed
qed

subsection \<open>The shape of the thumbnail request\<close>

lemma thumbnailPromptParts_prompt:
  "fst (thumbnailPromptParts ttl lang n m1 m2 bgs lay st k) =
     prompt_intro @ prompt_title ttl @ prompt_language lang @ prompt_subjects n
     @ (if truthy m1 then prompt_image1 else [])
     @ (if truthy m2 \<and> n = 2 then prompt_image2 else [])
     @ prompt_layout lay @ layoutWording lay n @ prompt_placement
     @ (if bgs \<noteq> [] then prompt_backgrounds else [])
     @ (case st of None \<Rightarrow> [] | Some d \<Rightarrow> if d \<noteq> [] then prompt_style k d else [])
     @ prompt_closing"
  by (cases m1; cases m2; cases st) (simp_all add: thumbnailPromptParts_def Let_def)

lemma thumbnailPromptParts_parts:
  "snd (thumbnailPromptParts ttl lang n m1 m2 bgs lay st k) =
     TextPart (fst (thumbnailPromptParts ttl lang n m1 m2 bgs lay st k))
     # subjectPart m1 @ (if n = 2 then subjectPart m2 else []) @ map inlinePart bgs"
  by (cases m1; cases m2; cases st) (simp_all add: thumbnailPromptParts_def Let_def subjectPart_def)

lemma sublist_skip: "sublist xs ys \<Longrightarrow> sublist xs (ps @ ys)"
  by (auto simp: sublist_def) (metis append.assoc)

lemma sublist_first:
  assumes "sublist xs ys"
  shows "sublist xs (ys @ ss)"
proof -
  from assms obtain p s where "ys = p @ xs @ s"
    by (auto simp: sublist_def)
  then have "ys @ ss = p @ xs @ (s @ ss)" by simp
  then show ?thesis unfolding sublist_def by blast
qed

lemma prompt_has_title: "sublist ttl (fst (thumbnailPromptParts ttl lang n m1 m2 bgs lay st k))"
proof -
  have "sublist ttl (prompt_title ttl)"
    unfolding prompt_title_def by (rule sublist_appendI)
  then show ?thesis
    unfolding thumbnailPromptParts_prompt by (intro sublist_skip sublist_first)
qed


lemma prompt_has_layout:
  "sublist (prompt_layout lay @ layoutWording lay n @ prompt_placement)
     (fst (thumbnailPromptParts ttl lang n m1 m2 bgs lay st k))"
proof -
  have "fst (thumbnailPromptParts ttl lang n m1 m2 bgs lay st k) =
     (prompt_intro @ prompt_title ttl @ prompt_language lang @ prompt_subjects n
       @ (if truthy m1 then prompt_image1 else [])
       @ (if truthy m2 \<and> n = 2 then prompt_image2 else []))
     @ (prompt_layout lay @ layoutWording lay n @ prompt_placement)
     @ ((if bgs \<noteq> [] then prompt_backgrounds else [])
       @ (case st of None \<Rightarrow> [] | Some d \<Rightarrow> if d \<noteq> [] then prompt_style k d else [])
       @ prompt_closing)"
    unfolding thumbnailPromptParts_prompt by (simp only: append_assoc)
  then show ?thesis
    by (simp only: sublist_appendI)
qed

lemma prompt_has_wording:
  "sublist (layoutWording lay n) (fst (thumbnailPromptParts ttl lang n m1 m2 bgs lay st k))"
proof -
  have "sublist (layoutWording lay n) (prompt_layout lay @ layoutWording lay n @ prompt_placement)"
    by (rule sublist_appendI)
  with prompt_has_layout [of lay n ttl lang m1 m2 bgs st k] show ?thesis
    by (rule sublist_order.order_trans [rotated])
qed

lemma js_show_nat_1: "js_show_nat 1 = ''1''"
  by code_simp

lemma thumbnailPromptParts_one_mode:
  "n \<noteq> 2 \<Longrightarrow> thumbnailPromptParts ttl lang n m1 m2 bgs lay st k =
     thumbnailPromptParts ttl lang n m1 None bgs lay st k"
  by (cases m2) (simp_all add: thumbnailPromptParts_def Let_def)

lemma handleGenerateClick_one_mode:
  assumes "numSubjects s \<noteq> 2"
  shows "snd (handleGenerateClick ep (s\<lparr>mainSubject2 := m\<rparr>, log)) = snd (handleGenerateClick ep (s, log))"
proof -
  have req: "\<And>st. thumbnailRequest (title s) (ws_language s) (numSubjects s) (map_option preview (mainSubject1 s))
        (map_option preview m) (map preview (backgroundImages s)) (layoutName (layoutPreset s)) st (styleStrength s)
      = thumbnailRequest (title s) (ws_language s) (numSubjects s) (map_option preview (mainSubject1 s))
        (map_option preview (mainSubject2 s)) (map preview (backgroundImages s)) (layoutName (layoutPreset s)) st (styleStrength s)"
    unfolding thumbnailRequest_def
    using thumbnailPromptParts_one_mode [OF assms] by metis
  show ?thesis
    using assms
    unfolding handleGenerateClick_def generateThumbnail_def analyzeStyleReferences_def generateContent_def Let_def
    by (simp add: req split: reply.splits sum.splits)
qed

section \<open>The thumbnail history\<close>

text \<open>
  Claim C1. In a workspace whose cursor is valid, appending a new artifact keeps the
  history up to and including the cursor, drops everything after it, puts the new
  artifact at the end and leaves the cursor on it, the new last index. A generation
  that succeeds (no error is set) and an edit that was sent and succeeded append in this
  way the image decoded from the reply to the last request. With the history [A, B, C]
  and the cursor at A, appending D gives [A, D] with the cursor at D.
\<close>

theorem history_append_discards_redo:
  assumes "history_ok s"
  shows "thumbnailHistory (updateHistory t s) = take (nat (currentIndex s + 1)) (thumbnailHistory s) @ [t]
       \<and> currentIndex (updateHistory t s) = currentIndex s + 1
       \<and> currentIndex (updateHistory t s) = int (length (thumbnailHistory (updateHistory t s))) - 1
       \<and> (\<forall>ep log s' log'.
            handleGenerateClick ep (s, log) = (s', log') \<and> ws_error s' = None \<longrightarrow>
              (\<exists>t' r. ep (length log' - 1) (last log') = Replied r
                 \<and> decodeImage no_thumbnail_error r = Inr t'
                 \<and> thumbnailHistory s' = take (nat (currentIndex s + 1)) (thumbnailHistory s) @ [t']
                 \<and> currentIndex s' = currentIndex s + 1))
       \<and> (\<forall>ep instruction log s' log'.
            handleApplyEdit ep instruction (s, log) = (s', log') \<and> log' \<noteq> log \<and> ws_error s' = None \<longrightarrow>
              (\<exists>t' r. ep (length log' - 1) (last log') = Replied r
                 \<and> decodeImage no_edited_thumbnail_error r = Inr t'
                 \<and> thumbnailHistory s' = take (nat (currentIndex s + 1)) (thumbnailHistory s) @ [t']
                 \<and> currentIndex s' = currentIndex s + 1))"
proof (intro conjI allI impI)
  show "thumbnailHistory (updateHistory t s) = take (nat (currentIndex s + 1)) (thumbnailHistory s) @ [t]"
    by (rule updateHistory_history [OF assms])
  show "currentIndex (updateHistory t s) = currentIndex s + 1"
    by (rule updateHistory_cursor [OF assms])
  show "currentIndex (updateHistory t s) = int (length (thumbnailHistory (updateHistory t s))) - 1"
    by (simp add: updateHistory_def Let_def)
next
  fix ep log s' log'
  assume h: "handleGenerateClick ep (s, log) = (s', log') \<and> ws_error s' = None"
  have present: "\<not> subjects_missing s"
  proof
    assume "subjects_missing s"
    from handleGenerateClick_rejected [OF this, of ep log] h show False by auto
  qed
  from handleGenerateClick_outcome [OF present conjunct1 [OF h]] h
  obtain t' r where "ep (length log' - 1) (last log') = Replied r"
    and "decodeImage no_thumbnail_error r = Inr t'"
    and "thumbnailHistory s' = thumbnailHistory (updateHistory t' s)"
    and "currentIndex s' = currentIndex (updateHistory t' s)"
    by auto
  then show "\<exists>t' r. ep (length log' - 1) (last log') = Replied r
       \<and> decodeImage no_thumbnail_error r = Inr t'
       \<and> thumbnailHistory s' = take (nat (currentIndex s + 1)) (thumbnailHistory s) @ [t']
       \<and> currentIndex s' = currentIndex s + 1"
    using updateHistory_history [OF assms] updateHistory_cursor [OF assms] by auto
next
  fix ep instruction log s' log'
  assume h: "handleApplyEdit ep instruction (s, log) = (s', log') \<and> log' \<noteq> log \<and> ws_error s' = None"
  from handleApplyEdit_outcome [OF conjunct1 [OF h]] h
  obtain t' r where "ep (length log' - 1) (last log') = Replied r"
    and "decodeImage no_edited_thumbnail_error r = Inr t'"
    and "thumbnailHistory s' = thumbnailHistory (updateHistory t' s)"
    and "currentIndex s' = currentIndex (updateHistory t' s)"
    by auto
  then show "\<exists>t' r. ep (length log' - 1) (last log') = Replied r
       \<and> decodeImage no_edited_thumbnail_error r = Inr t'
       \<and> thumbnailHistory s' = take (nat (currentIndex s + 1)) (thumbnailHistory s) @ [t']
       \<and> currentIndex s' = currentIndex s + 1"
    using updateHistory_history [OF assms] updateHistory_cursor [OF assms] by auto
qed

theorem history_append_discards_redo_witness:
  "history_ok ws_ABC
   \<and> thumbnailHistory (updateHistory ''D'' ws_ABC) = [''A'', ''D'']
   \<and> currentIndex (updateHistory ''D'' ws_ABC) = 1
   \<and> ws_error (fst (handleGenerateClick ep_image_first (ws_ABC, []))) = None
   \<and> thumbnailHistory (fst (handleGenerateClick ep_image_first (ws_ABC, []))) = [''A'', ''data:image/png;base64,D'']
   \<and> currentIndex (fst (handleGenerateClick ep_image_first (ws_ABC, []))) = 1
   \<and> ws_error (fst (handleApplyEdit ep_image_first ''make the text yellow'' (ws_ABC, []))) = None
   \<and> snd (handleApplyEdit ep_image_first ''make the text yellow'' (ws_ABC, [])) \<noteq> []
   \<and> thumbnailHistory (fst (handleApplyEdit ep_image_first ''make the text yellow'' (ws_ABC, []))) = [''A'', ''data:image/png;base64,D'']
   \<and> currentIndex (fst (handleApplyEdit ep_image_first ''make the text yellow'' (ws_ABC, []))) = 1"
proof -
  have ok: "history_ok ws_ABC"
    by (simp add: history_ok_def ws_ABC_def initialWorkspace_def)
  note T = history_append_discards_redo [OF ok, of "''D''"]
  have cur: "currentIndex ws_ABC = 0" and hist: "thumbnailHistory ws_ABC = [''A'', ''B'', ''C'']"
    by (simp_all add: ws_ABC_def initialWorkspace_def)
  obtain s1 l1 where g: "handleGenerateClick ep_image_first (ws_ABC, []) = (s1, l1)"
    by fastforce
  have g_err: "ws_error s1 = None"
    using g by (auto simp: handleGenerateClick_def ws_ABC_def initialWorkspace_def generateThumbnail_def
        generateContent_def ep_image_first_def decode_image_first updateHistory_def Let_def)
  from T g g_err obtain t1 r1 where
    "ep_image_first (length l1 - 1) (last l1) = Replied r1"
    "decodeImage no_thumbnail_error r1 = Inr t1"
    "thumbnailHistory s1 = take (nat (currentIndex ws_ABC + 1)) (thumbnailHistory ws_ABC) @ [t1]"
    "currentIndex s1 = currentIndex ws_ABC + 1"
    by blast
  then have g_res: "thumbnailHistory s1 = [''A'', ''data:image/png;base64,D'']" "currentIndex s1 = 1"
    by (simp_all add: ep_image_first_def decode_image_first cur hist)
  obtain s2 l2 where e: "handleApplyEdit ep_image_first ''make the text yellow'' (ws_ABC, []) = (s2, l2)"
    by fastforce
  have e_err: "ws_error s2 = None \<and> l2 \<noteq> []"
    using e by (auto simp: handleApplyEdit_def ws_ABC_current trim_yellow editThumbnail_def
        generateContent_def ep_image_first_def decode_image_first updateHistory_def Let_def)
  from T e e_err obtain t2 r2 where
    "ep_image_first (length l2 - 1) (last l2) = Replied r2"
    "decodeImage no_edited_thumbnail_error r2 = Inr t2"
    "thumbnailHistory s2 = take (nat (currentIndex ws_ABC + 1)) (thumbnailHistory ws_ABC) @ [t2]"
    "currentIndex s2 = currentIndex ws_ABC + 1"
    by blast
  then have e_res: "thumbnailHistory s2 = [''A'', ''data:image/png;base64,D'']" "currentIndex s2 = 1"
    by (simp_all add: ep_image_first_def decode_image_first cur hist)
  from T have "thumbnailHistory (updateHistory ''D'' ws_ABC) = [''A'', ''D'']"
    and "currentIndex (updateHistory ''D'' ws_ABC) = 1"
    by (simp_all add: cur hist)
  with ok g g_err g_res e e_err e_res show ?thesis by simp
qed

text \<open>
  Claim C2. In a workspace whose cursor is valid, undo and redo leave the history as it
  is and the cursor valid: undo moves the cursor down by one exactly when it is above 0,
  redo moves it up by one exactly when it is below the last index, so that with a
  non-empty history the cursor stays within [0, length - 1]. Undo at index 0 and redo at
  the last index change nothing, however often they are repeated.
\<close>

theorem undo_redo_stay_in_bounds:
  assumes "history_ok s"
  shows "history_ok (handleUndo s) \<and> history_ok (handleRedo s)
       \<and> handleUndo s = s\<lparr>currentIndex := (if 0 < currentIndex s then currentIndex s - 1 else currentIndex s)\<rparr>
       \<and> handleRedo s = s\<lparr>currentIndex :=
            (if currentIndex s < int (length (thumbnailHistory s)) - 1 then currentIndex s + 1 else currentIndex s)\<rparr>
       \<and> (thumbnailHistory s \<noteq> [] \<longrightarrow>
            0 \<le> currentIndex (handleUndo s) \<and> currentIndex (handleUndo s) \<le> int (length (thumbnailHistory s)) - 1
            \<and> 0 \<le> currentIndex (handleRedo s) \<and> currentIndex (handleRedo s) \<le> int (length (thumbnailHistory s)) - 1)
       \<and> (currentIndex s = 0 \<longrightarrow> (\<forall>n. (handleUndo ^^ n) s = s))
       \<and> (currentIndex s = int (length (thumbnailHistory s)) - 1 \<longrightarrow> (\<forall>n. (handleRedo ^^ n) s = s))"
proof -
  have u: "history_ok (handleUndo s)" and r: "history_ok (handleRedo s)"
    using assms by (rule handleUndo_ok, rule handleRedo_ok)
  have hu: "thumbnailHistory (handleUndo s) = thumbnailHistory s"
    and hr: "thumbnailHistory (handleRedo s) = thumbnailHistory s"
    by (simp_all add: handleUndo_def handleRedo_def)
  have bounds: "thumbnailHistory s \<noteq> [] \<longrightarrow>
            0 \<le> currentIndex (handleUndo s) \<and> currentIndex (handleUndo s) \<le> int (length (thumbnailHistory s)) - 1
            \<and> 0 \<le> currentIndex (handleRedo s) \<and> currentIndex (handleRedo s) \<le> int (length (thumbnailHistory s)) - 1"
    using u r by (auto simp: history_ok_def hu hr split: if_splits)
  have eu: "handleUndo s = s\<lparr>currentIndex := (if 0 < currentIndex s then currentIndex s - 1 else currentIndex s)\<rparr>"
    by (simp add: handleUndo_def canUndo_def)
  have er: "handleRedo s = s\<lparr>currentIndex :=
            (if currentIndex s < int (length (thumbnailHistory s)) - 1 then currentIndex s + 1 else currentIndex s)\<rparr>"
    by (simp add: handleRedo_def canRedo_def)
  have iu: "currentIndex s = 0 \<longrightarrow> (\<forall>n. (handleUndo ^^ n) s = s)"
    by (simp add: handleUndo_idle)
  have ir: "currentIndex s = int (length (thumbnailHistory s)) - 1 \<longrightarrow> (\<forall>n. (handleRedo ^^ n) s = s)"
    by (simp add: handleRedo_idle)
  from u r bounds eu er iu ir show ?thesis by blast
qed

theorem undo_redo_stay_in_bounds_witness:
  "history_ok ws_ABC
   \<and> handleUndo ws_ABC = ws_ABC
   \<and> (handleUndo ^^ 3) ws_ABC = ws_ABC
   \<and> currentIndex (handleRedo ws_ABC) = 1
   \<and> currentIndex (handleRedo (handleRedo ws_ABC)) = 2
   \<and> (handleRedo ^^ 3) (handleRedo (handleRedo ws_ABC)) = handleRedo (handleRedo ws_ABC)
   \<and> currentIndex (handleUndo (handleRedo (handleRedo ws_ABC))) = 1"
proof -
  have ok: "history_ok ws_ABC"
    by (simp add: history_ok_def ws_ABC_def initialWorkspace_def)
  have cur: "currentIndex ws_ABC = 0" and hist: "thumbnailHistory ws_ABC = [''A'', ''B'', ''C'']"
    by (simp_all add: ws_ABC_def initialWorkspace_def)
  note T0 = undo_redo_stay_in_bounds [OF ok]
  have r1: "handleRedo ws_ABC = ws_ABC\<lparr>currentIndex := 1\<rparr>"
    using T0 by (simp add: cur hist)
  have ok1: "history_ok (handleRedo ws_ABC)" using T0 by blast
  note T1 = undo_redo_stay_in_bounds [OF ok1]
  have r2: "handleRedo (handleRedo ws_ABC) = ws_ABC\<lparr>currentIndex := 2\<rparr>"
    using T1 by (simp add: r1 hist)
  have ok2: "history_ok (handleRedo (handleRedo ws_ABC))" using T1 by blast
  note T2 = undo_redo_stay_in_bounds [OF ok2]
  have "handleUndo ws_ABC = ws_ABC" using T0 by (simp add: cur)
  moreover have "(handleUndo ^^ 3) ws_ABC = ws_ABC" using T0 by (simp add: cur del: funpow.simps)
  moreover have "(handleRedo ^^ 3) (handleRedo (handleRedo ws_ABC)) = handleRedo (handleRedo ws_ABC)"
    using T2 by (simp add: r2 hist del: funpow.simps)
  moreover have "currentIndex (handleUndo (handleRedo (handleRedo ws_ABC))) = 1"
    using T2 by (simp add: r2)
  ultimately show ?thesis using ok r1 r2 by simp
qed

section \<open>The session state machine\<close>

text \<open>
  Claim C3, as amended. Submitting a topic moves the session to GeneratingTitles with the
  error cleared. When the request succeeds the session moves to TitlesDisplayed with the
  returned titles stored. When it fails the session returns to TopicInput with the error
  message set, and the titles list is the one from before the submission: empty in a
  fresh session or after a start over, the earlier titles otherwise. The handler sends
  exactly one request.
\<close>

theorem title_generation_transitions:
  "appState (handleGenerateTitles_submit newTopic lang s) = GENERATING_TITLES
   \<and> error (handleGenerateTitles_submit newTopic lang s) = None
   \<and> topic (handleGenerateTitles_submit newTopic lang s) = newTopic
   \<and> language (handleGenerateTitles_submit newTopic lang s) = lang
   \<and> handleGenerateTitles_settle (Inr titles) (handleGenerateTitles_submit newTopic lang s) =
       (handleGenerateTitles_submit newTopic lang s)\<lparr>generatedTitles := titles, appState := TITLES_DISPLAYED\<rparr>
   \<and> appState (handleGenerateTitles_settle (Inl e) (handleGenerateTitles_submit newTopic lang s)) = TITLE_INPUT
   \<and> error (handleGenerateTitles_settle (Inl e) (handleGenerateTitles_submit newTopic lang s)) =
       Some ''Failed to generate titles. Please try again.''
   \<and> generatedTitles (handleGenerateTitles_settle (Inl e) (handleGenerateTitles_submit newTopic lang s)) =
       generatedTitles s
   \<and> generatedTitles (handleGenerateTitles_settle (Inl e) (handleGenerateTitles_submit newTopic lang initialSession)) = []
   \<and> generatedTitles (handleGenerateTitles_settle (Inl e) (handleGenerateTitles_submit newTopic lang (handleStartOver s))) = []
   \<and> handleGenerateTitles parse ep newTopic lang (s, log) =
       (handleGenerateTitles_settle (fst (generateTitles parse ep newTopic lang log))
          (handleGenerateTitles_submit newTopic lang s),
        log @ [titlesRequest newTopic lang])"
proof -
  have run: "handleGenerateTitles parse ep newTopic lang (s, log) =
       (handleGenerateTitles_settle (fst (generateTitles parse ep newTopic lang log))
          (handleGenerateTitles_submit newTopic lang s),
        log @ [titlesRequest newTopic lang])"
    using generateTitles_log [of parse ep newTopic lang log]
    by (auto simp: handleGenerateTitles_def Let_def split: prod.splits)
  show ?thesis
    unfolding run
    by (simp add: handleGenerateTitles_submit_def handleGenerateTitles_settle_def initialSession_def
        handleStartOver_def)
qed

text \<open>
  The claim as first stated fails: after titles were generated once, a failed request
  returns to TopicInput with the earlier titles still in the list, and so does a further
  failed request submitted from TopicInput.
\<close>

theorem title_failure_keeps_earlier_titles:
  "appState session_titles = TITLES_DISPLAYED
   \<and> appState session_failed = TITLE_INPUT
   \<and> error session_failed \<noteq> None
   \<and> generatedTitles session_failed = [''Cats!'']
   \<and> appState (handleGenerateTitles_settle (Inl ''503'') (handleGenerateTitles_submit ''dogs'' en session_failed)) = TITLE_INPUT
   \<and> error (handleGenerateTitles_settle (Inl ''503'') (handleGenerateTitles_submit ''dogs'' en session_failed)) \<noteq> None
   \<and> generatedTitles (handleGenerateTitles_settle (Inl ''503'') (handleGenerateTitles_submit ''dogs'' en session_failed)) \<noteq> []"
  by (simp add: session_failed_def session_titles_def handleGenerateTitles_submit_def
      handleGenerateTitles_settle_def initialSession_def)

text \<open>
  Claim C6, as amended. Start over, from any session, gives the initial session except
  for the language, which is kept: the state is TopicInput, and the topic, the generated
  titles, the selected title and the error are back at their initial values.
\<close>

theorem start_over_keeps_language:
  "handleStartOver s = initialSession\<lparr>language := language s\<rparr>"
  by (simp add: handleStartOver_def initialSession_def)

text \<open>
  The claim as first stated fails: started over from the workspace of an Arabic session,
  the language is still Arabic, not the initial English.
\<close>

theorem start_over_language_not_reset:
  "appState session_workspace = THUMBNAIL_INPUT
   \<and> language (handleStartOver session_workspace) = ar
   \<and> language initialSession = en
   \<and> handleStartOver session_workspace \<noteq> initialSession"
proof -
  have l: "language (handleStartOver session_workspace) = ar"
    by (simp add: session_workspace_def session_titles_def handleTitleSelect_def handleStartOver_def
        handleGenerateTitles_submit_def handleGenerateTitles_settle_def)
  have i: "language initialSession = en"
    by (simp add: initialSession_def)
  have "handleStartOver session_workspace \<noteq> initialSession"
  proof
    assume "handleStartOver session_workspace = initialSession"
    then have "language (handleStartOver session_workspace) = language initialSession" by simp
    with l i show False by simp
  qed
  moreover have "appState session_workspace = THUMBNAIL_INPUT"
    by (simp add: session_workspace_def handleTitleSelect_def)
  ultimately show ?thesis using l i by simp
qed

section \<open>Generating and editing in the workspace\<close>

text \<open>
  Claim C4. When the first subject photo is missing, or two subjects are selected and
  the second photo is missing, the generate action only sets the input-validation
  message: no request is sent (the log is unchanged) and the history, the cursor and
  every other field are as before.
\<close>

theorem generate_rejected_without_photos:
  assumes "mainSubject1 s = None \<or> (numSubjects s = 2 \<and> mainSubject2 s = None)"
  shows "handleGenerateClick ep (s, log) =
           (s\<lparr>ws_error := Some ''Please upload all main subject photos.''\<rparr>, log)
       \<and> snd (handleGenerateClick ep (s, log)) = log
       \<and> ws_error (fst (handleGenerateClick ep (s, log))) = Some ''Please upload all main subject photos.''
       \<and> thumbnailHistory (fst (handleGenerateClick ep (s, log))) = thumbnailHistory s
       \<and> currentIndex (fst (handleGenerateClick ep (s, log))) = currentIndex s"
  using assms by (simp add: handleGenerateClick_def)

theorem generate_rejected_without_photos_witness:
  "numSubjects ws_two_subjects = 2 \<and> mainSubject1 ws_two_subjects = Some photo1
   \<and> mainSubject2 ws_two_subjects = None
   \<and> snd (handleGenerateClick ep_image_first (ws_two_subjects, [])) = []
   \<and> ws_error (fst (handleGenerateClick ep_image_first (ws_two_subjects, []))) =
        Some ''Please upload all main subject photos.''
   \<and> thumbnailHistory (fst (handleGenerateClick ep_image_first (ws_two_subjects, []))) = [''A'', ''B'', ''C'']
   \<and> currentIndex (fst (handleGenerateClick ep_image_first (ws_two_subjects, []))) = 0
   \<and> mainSubject1 (initialWorkspace ''My title'' en) = None
   \<and> snd (handleGenerateClick ep_image_first (initialWorkspace ''My title'' en, [])) = []
   \<and> thumbnailHistory (fst (handleGenerateClick ep_image_first (initialWorkspace ''My title'' en, []))) = []"
proof -
  have a: "mainSubject1 ws_two_subjects = None \<or> (numSubjects ws_two_subjects = 2 \<and> mainSubject2 ws_two_subjects = None)"
    by (simp add: ws_two_subjects_def ws_ABC_def initialWorkspace_def)
  have b: "mainSubject1 (initialWorkspace ''My title'' en) = None \<or>
      (numSubjects (initialWorkspace ''My title'' en) = 2 \<and> mainSubject2 (initialWorkspace ''My title'' en) = None)"
    by (simp add: initialWorkspace_def)
  show ?thesis
    using generate_rejected_without_photos [OF a, of ep_image_first "[]"]
      generate_rejected_without_photos [OF b, of ep_image_first "[]"]
    by (simp add: ws_two_subjects_def ws_ABC_def initialWorkspace_def)
qed

text \<open>
  Claim C5, as amended. The suggestion list is cleared by every generate action that
  passes the input validation, whether the generation then succeeds or fails. It is
  left as it is by a rejected generate action, by every edit, successful or not, and by
  undo and redo; while suggestions are present, the effect that follows an undo or a
  redo does nothing.
\<close>

theorem suggestions_cleared_by_generate_only:
  "(\<not> subjects_missing s \<longrightarrow> suggestions (fst (handleGenerateClick ep (s, log))) = [])
   \<and> (subjects_missing s \<longrightarrow> suggestions (fst (handleGenerateClick ep (s, log))) = suggestions s)
   \<and> suggestions (fst (handleApplyEdit ep instruction (s, log))) = suggestions s
   \<and> suggestions (handleUndo s) = suggestions s
   \<and> suggestions (handleRedo s) = suggestions s
   \<and> (suggestions s \<noteq> [] \<longrightarrow>
        currentThumbnailEffect parse ep (handleUndo s, log) = (handleUndo s, log)
        \<and> currentThumbnailEffect parse ep (handleRedo s, log) = (handleRedo s, log))"
proof -
  have "suggestions (handleUndo s) = suggestions s" "suggestions (handleRedo s) = suggestions s"
    by (simp_all add: handleUndo_def handleRedo_def)
  then show ?thesis
    using handleApplyEdit_suggestions [of ep instruction s log] handleGenerateClick_suggestions [of s ep log]
      handleGenerateClick_rejected [of s ep log]
    by (simp add: currentThumbnailEffect_def)
qed

theorem suggestions_cleared_by_generate_only_witness:
  "\<not> subjects_missing ws_ABC \<and> suggestions ws_ABC \<noteq> []
   \<and> suggestions (fst (handleGenerateClick ep_image_first (ws_ABC, []))) = []
   \<and> subjects_missing ws_two_subjects
   \<and> suggestions (fst (handleGenerateClick ep_image_first (ws_two_subjects, []))) = [''Add a glowing outline around the text'']
   \<and> suggestions (fst (handleApplyEdit ep_image_first ''make the text yellow'' (ws_ABC, []))) = [''Add a glowing outline around the text'']
   \<and> suggestions (handleRedo ws_ABC) = [''Add a glowing outline around the text'']
   \<and> currentThumbnailEffect Map.empty ep_image_first (handleRedo ws_ABC, []) = (handleRedo ws_ABC, [])"
proof -
  have a: "\<not> subjects_missing ws_ABC" and b: "subjects_missing ws_two_subjects"
    and c: "suggestions ws_ABC = [''Add a glowing outline around the text'']"
    and d: "suggestions ws_two_subjects = [''Add a glowing outline around the text'']"
    by (simp_all add: subjects_missing_def ws_two_subjects_def ws_ABC_def initialWorkspace_def)
  show ?thesis
    using suggestions_cleared_by_generate_only [of ws_ABC ep_image_first "[]" "''make the text yellow''" Map.empty]
      suggestions_cleared_by_generate_only [of ws_two_subjects ep_image_first "[]" "''make the text yellow''" Map.empty]
      a b c d
    by simp
qed

text \<open>
  The claim as first stated fails in both directions: a successful edit appends to the
  history and keeps the suggestions, and a generation that fails leaves the history
  unchanged and has cleared them.
\<close>

theorem suggestions_kept_by_edit_cleared_by_failed_generation:
  "thumbnailHistory (fst (handleApplyEdit ep_image_first ''make the text yellow'' (ws_ABC, []))) = [''A'', ''data:image/png;base64,D'']
   \<and> ws_error (fst (handleApplyEdit ep_image_first ''make the text yellow'' (ws_ABC, []))) = None
   \<and> suggestions (fst (handleApplyEdit ep_image_first ''make the text yellow'' (ws_ABC, []))) = [''Add a glowing outline around the text'']
   \<and> thumbnailHistory (fst (handleGenerateClick ep_down (ws_ABC, []))) = [''A'', ''B'', ''C'']
   \<and> ws_error (fst (handleGenerateClick ep_down (ws_ABC, []))) = Some ''Failed to generate thumbnail.''
   \<and> suggestions ws_ABC = [''Add a glowing outline around the text'']
   \<and> suggestions (fst (handleGenerateClick ep_down (ws_ABC, []))) = []"
proof -
  have e: "fst (handleApplyEdit ep_image_first ''make the text yellow'' (ws_ABC, [])) =
      (updateHistory ''data:image/png;base64,D'' (ws_ABC\<lparr>loading := EDITING, ws_error := None\<rparr>))\<lparr>editInstruction := [], loading := NONE\<rparr>"
    by (simp add: handleApplyEdit_def ws_ABC_current trim_yellow editThumbnail_def generateContent_def
        ep_image_first_def decode_image_first)
  have g: "fst (handleGenerateClick ep_down (ws_ABC, [])) =
      ws_ABC\<lparr>loading := GENERATING, ws_error := None, suggestions := [],
        ws_error := Some ''Failed to generate thumbnail.'', loading := NONE\<rparr>"
    by (simp add: handleGenerateClick_def generateThumbnail_def generateContent_def ep_down_def
        ws_ABC_def initialWorkspace_def)
  show ?thesis
    unfolding e g
    by (simp add: updateHistory_def js_slice0_def ws_ABC_def initialWorkspace_def)
qed

section \<open>Style references\<close>

text \<open>
  Claim C9. Removing a style reference leaves no analysed style description: a
  description that was present is set to null. Adding reference files after that does
  not bring it back, whether their reads succeed or not; and from any workspace, adding
  reference files whose reads succeed sets the analysed style to null.
\<close>

theorem removing_reference_clears_style:
  "\<not> truthy (analyzedStyle (handleRemoveReference i s))
   \<and> (truthy (analyzedStyle s) \<longrightarrow> analyzedStyle (handleRemoveReference i s) = None)
   \<and> \<not> truthy (analyzedStyle (handleFileChange enc reference files (handleRemoveReference i s)))
   \<and> (truthy (analyzedStyle s) \<longrightarrow>
        analyzedStyle (handleFileChange enc reference files (handleRemoveReference i s)) = None)
   \<and> (files \<noteq> [] \<and> those (map enc (take 3 (referenceFiles s @ files))) \<noteq> None \<longrightarrow>
        analyzedStyle (handleFileChange enc reference files s) = None)"
  by (simp add: handleRemoveReference_style handleFileChange_reference_style)

theorem removing_reference_clears_style_witness:
  "truthy (analyzedStyle ws_styled)
   \<and> analyzedStyle (handleRemoveReference 0 ws_styled) = None
   \<and> referencePreviews (handleRemoveReference 0 ws_styled) = []
   \<and> analyzedStyle (handleFileChange enc_ok reference [new_reference] (handleRemoveReference 0 ws_styled)) = None
   \<and> referencePreviews (handleFileChange enc_ok reference [new_reference] (handleRemoveReference 0 ws_styled)) =
        [''data:image/png;base64,other.png'']
   \<and> [new_reference] \<noteq> []
   \<and> those (map enc_ok (take 3 (referenceFiles ws_styled @ [new_reference]))) \<noteq> None
   \<and> analyzedStyle (handleFileChange enc_ok reference [new_reference] ws_styled) = None"
proof -
  have t: "truthy (analyzedStyle ws_styled)"
    by (simp add: ws_styled_def)
  have r: "those (map enc_ok (take 3 (referenceFiles ws_styled @ [new_reference]))) \<noteq> None"
    by (simp add: ws_styled_def enc_ok_def)
  have p: "referencePreviews (handleRemoveReference 0 ws_styled) = []"
    by (simp add: handleRemoveReference_def ws_styled_def filter_index_neq_def)
  have q: "referencePreviews (handleFileChange enc_ok reference [new_reference] (handleRemoveReference 0 ws_styled)) =
        [''data:image/png;base64,other.png'']"
    by (simp add: handleFileChange_def handleRemoveReference_def ws_styled_def filter_index_neq_def
        enc_ok_def new_reference_def)
  show ?thesis
    using removing_reference_clears_style [of 0 ws_styled enc_ok "[new_reference]"] t r p q
    by simp
qed

section \<open>The generation client\<close>

text \<open>
  Claim C7, as amended. Thumbnail generation and thumbnail editing each send exactly one
  request, whatever the reply. A rejected call fails with the error of the rejection. A
  reply is decoded by looking at the first part of the first candidate only: when that
  part carries inline data, its payload is returned (and it is the first image payload
  of the response); in every other case the call fails with the "no thumbnail" error,
  in particular when the response holds no image payload at all.
\<close>

theorem image_client_reads_first_part:
  "generateThumbnail ep ttl lang n m1 m2 bgs lay st k log =
     ((case ep (length log) (thumbnailRequest ttl lang n m1 m2 bgs lay st k) of
         Rejected e \<Rightarrow> Inl e
       | Replied r \<Rightarrow> decodeImage no_thumbnail_error r),
      log @ [thumbnailRequest ttl lang n m1 m2 bgs lay st k])
   \<and> editThumbnail ep cur instruction lang log =
     ((case ep (length log) (editRequest cur instruction lang) of
         Rejected e \<Rightarrow> Inl e
       | Replied r \<Rightarrow> decodeImage no_edited_thumbnail_error r),
      log @ [editRequest cur instruction lang])
   \<and> (\<forall>p d. firstCandidatePart r = Some p \<and> part_inlineData p = Some d \<longrightarrow>
         decodeImage m r = Inr (''data:image/png;base64,'' @ data d) \<and> firstImagePayload r = Some (data d))
   \<and> ((\<forall>p. firstCandidatePart r = Some p \<longrightarrow> part_inlineData p = None) \<longrightarrow> decodeImage m r = Inl m)
   \<and> (firstImagePayload r = None \<longrightarrow> decodeImage m r = Inl m)"
proof -
  have g: "generateThumbnail ep ttl lang n m1 m2 bgs lay st k log =
     ((case ep (length log) (thumbnailRequest ttl lang n m1 m2 bgs lay st k) of
         Rejected e \<Rightarrow> Inl e
       | Replied r \<Rightarrow> decodeImage no_thumbnail_error r),
      log @ [thumbnailRequest ttl lang n m1 m2 bgs lay st k])"
    by (simp add: generateThumbnail_def generateContent_def split: reply.splits)
  have e: "editThumbnail ep cur instruction lang log =
     ((case ep (length log) (editRequest cur instruction lang) of
         Rejected e \<Rightarrow> Inl e
       | Replied r \<Rightarrow> decodeImage no_edited_thumbnail_error r),
      log @ [editRequest cur instruction lang])"
    by (simp add: editThumbnail_def generateContent_def split: reply.splits)
  from g e show ?thesis
    using decodeImage_first_part [of r _ _ m] decodeImage_no_first_part [of r m] decodeImage_no_image [of r m]
    by blast
qed

theorem image_client_reads_first_part_witness:
  "firstCandidatePart image_first = Some (RPart None (Some (InlineData ''D'' ''image/png'')))
   \<and> decodeImage no_thumbnail_error image_first = Inr ''data:image/png;base64,D''
   \<and> firstImagePayload image_first = Some ''D''
   \<and> firstCandidatePart text_then_image = Some (RPart (Some ''Here is your thumbnail.'') None)
   \<and> decodeImage no_thumbnail_error text_then_image = Inl no_thumbnail_error
   \<and> firstImagePayload no_candidates = None
   \<and> decodeImage no_edited_thumbnail_error no_candidates = Inl no_edited_thumbnail_error
   \<and> length (snd (generateThumbnail ep_image_first ''My title'' en 1 (Some ''data:image/png;base64,AAA'') None []
        ''Default'' None 80 [])) = 1
   \<and> fst (generateThumbnail ep_image_first ''My title'' en 1 (Some ''data:image/png;base64,AAA'') None []
        ''Default'' None 80 []) = Inr ''data:image/png;base64,D''"
proof -
  have a: "firstCandidatePart image_first = Some (RPart None (Some (InlineData ''D'' ''image/png'')))"
    by (simp add: firstCandidatePart_def image_first_def)
  have b: "firstCandidatePart text_then_image = Some (RPart (Some ''Here is your thumbnail.'') None)"
    by (simp add: firstCandidatePart_def text_then_image_def)
  have c: "firstImagePayload no_candidates = None"
    by (simp add: firstImagePayload_def imagePayloads_def responseParts_def no_candidates_def
        List.map_filter_simps)
  note T1 = image_client_reads_first_part [of ep_image_first "''My title''" en 1
      "Some ''data:image/png;base64,AAA''" None "[]" "''Default''" None 80 "[]" _ _ image_first no_thumbnail_error]
  note T2 = image_client_reads_first_part [of _ _ _ _ _ _ _ _ _ _ _ _ _ text_then_image no_thumbnail_error]
  note T3 = image_client_reads_first_part [of _ _ _ _ _ _ _ _ _ _ _ _ _ no_candidates no_edited_thumbnail_error]
  have d: "decodeImage no_thumbnail_error image_first = Inr ''data:image/png;base64,D''
      \<and> firstImagePayload image_first = Some ''D''"
    using T1 a by simp
  have e: "decodeImage no_thumbnail_error text_then_image = Inl no_thumbnail_error"
    using T2 b by simp
  have f: "decodeImage no_edited_thumbnail_error no_candidates = Inl no_edited_thumbnail_error"
    using T3 c by simp
  have g: "generateThumbnail ep_image_first ''My title'' en 1 (Some ''data:image/png;base64,AAA'') None []
        ''Default'' None 80 [] = (Inr ''data:image/png;base64,D'',
          [thumbnailRequest ''My title'' en 1 (Some ''data:image/png;base64,AAA'') None [] ''Default'' None 80])"
    using T1 d by (simp add: ep_image_first_def)
  from a b c d e f g show ?thesis by simp
qed

text \<open>
  The claim as first stated fails: for a response whose first part is text and whose
  second part is the image, the first returned image payload exists, and both calls
  fail all the same.
\<close>

theorem image_after_text_is_missed:
  "imagePayloads text_then_image = [''D'']
   \<and> firstImagePayload text_then_image = Some ''D''
   \<and> fst (generateThumbnail ep_text_then_image ''My title'' en 1 (Some ''data:image/png;base64,AAA'') None []
        ''Default'' None 80 []) = Inl no_thumbnail_error
   \<and> fst (editThumbnail ep_text_then_image ''data:image/png;base64,A'' ''make the text yellow'' en []) =
        Inl no_edited_thumbnail_error"
  by (simp add: imagePayloads_def firstImagePayload_def responseParts_def candidateParts_def
      text_then_image_def List.map_filter_simps generateThumbnail_def editThumbnail_def
      generateContent_def ep_text_then_image_def decodeImage_def firstCandidatePart_def)

section \<open>The thumbnail request\<close>

text \<open>
  Claim C8, as amended. Every thumbnail instruction embeds the title text verbatim and
  contains the layout sentence followed by the wording for the layout. The wording is
  the opposing-sides one for the "Versus/Comparison" preset with two subjects, the
  friendly side-by-side one for the "Collaboration" preset with two subjects, and the
  prominent-placement one in every other case, that is for the other presets and
  whenever the number of subjects is not two. The request parts start with the
  instruction and include the payload of the first subject image when one is supplied,
  and that of the second when one is supplied and the number of subjects is two.
\<close>

theorem thumbnail_instruction_layout:
  "sublist ttl (fst (thumbnailPromptParts ttl lang n m1 m2 bgs lay st k))
   \<and> sublist (prompt_layout lay @ layoutWording lay n @ prompt_placement)
       (fst (thumbnailPromptParts ttl lang n m1 m2 bgs lay st k))
   \<and> (lay = ''Versus/Comparison'' \<and> n = 2 \<longrightarrow>
        layoutWording lay n = wording_versus
        \<and> sublist wording_versus (fst (thumbnailPromptParts ttl lang n m1 m2 bgs lay st k)))
   \<and> (lay = ''Collaboration'' \<and> n = 2 \<longrightarrow>
        layoutWording lay n = wording_collaboration
        \<and> sublist wording_collaboration (fst (thumbnailPromptParts ttl lang n m1 m2 bgs lay st k)))
   \<and> (n \<noteq> 2 \<or> (lay \<noteq> ''Versus/Comparison'' \<and> lay \<noteq> ''Collaboration'') \<longrightarrow>
        layoutWording lay n = wording_prominent
        \<and> sublist wording_prominent (fst (thumbnailPromptParts ttl lang n m1 m2 bgs lay st k)))
   \<and> (\<forall>u. m1 = Some u \<and> u \<noteq> [] \<longrightarrow>
        inlinePart u \<in> set (snd (thumbnailPromptParts ttl lang n m1 m2 bgs lay st k)))
   \<and> (\<forall>u. m2 = Some u \<and> u \<noteq> [] \<and> n = 2 \<longrightarrow>
        inlinePart u \<in> set (snd (thumbnailPromptParts ttl lang n m1 m2 bgs lay st k)))
   \<and> hd (snd (thumbnailPromptParts ttl lang n m1 m2 bgs lay st k)) =
        TextPart (fst (thumbnailPromptParts ttl lang n m1 m2 bgs lay st k))
   \<and> req_contents (thumbnailRequest ttl lang n m1 m2 bgs lay st k) =
        Parts (snd (thumbnailPromptParts ttl lang n m1 m2 bgs lay st k))"
proof -
  note g = prompt_has_wording [of lay n ttl lang m1 m2 bgs st k]
  have v: "lay = ''Versus/Comparison'' \<and> n = 2 \<longrightarrow>
        layoutWording lay n = wording_versus
        \<and> sublist wording_versus (fst (thumbnailPromptParts ttl lang n m1 m2 bgs lay st k))"
  proof
    assume "lay = ''Versus/Comparison'' \<and> n = 2"
    then have "layoutWording lay n = wording_versus" by (simp add: layoutWording_def)
    with g show "layoutWording lay n = wording_versus
        \<and> sublist wording_versus (fst (thumbnailPromptParts ttl lang n m1 m2 bgs lay st k))"
      by simp
  qed
  have c: "lay = ''Collaboration'' \<and> n = 2 \<longrightarrow>
        layoutWording lay n = wording_collaboration
        \<and> sublist wording_collaboration (fst (thumbnailPromptParts ttl lang n m1 m2 bgs lay st k))"
  proof
    assume "lay = ''Collaboration'' \<and> n = 2"
    then have "layoutWording lay n = wording_collaboration" by (simp add: layoutWording_def)
    with g show "layoutWording lay n = wording_collaboration
        \<and> sublist wording_collaboration (fst (thumbnailPromptParts ttl lang n m1 m2 bgs lay st k))"
      by simp
  qed
  have o: "n \<noteq> 2 \<or> (lay \<noteq> ''Versus/Comparison'' \<and> lay \<noteq> ''Collaboration'') \<longrightarrow>
        layoutWording lay n = wording_prominent
        \<and> sublist wording_prominent (fst (thumbnailPromptParts ttl lang n m1 m2 bgs lay st k))"
  proof
    assume "n \<noteq> 2 \<or> (lay \<noteq> ''Versus/Comparison'' \<and> lay \<noteq> ''Collaboration'')"
    then have "layoutWording lay n = wording_prominent" by (auto simp: layoutWording_def)
    with g show "layoutWording lay n = wording_prominent
        \<and> sublist wording_prominent (fst (thumbnailPromptParts ttl lang n m1 m2 bgs lay st k))"
      by simp
  qed
  have p1: "\<forall>u. m1 = Some u \<and> u \<noteq> [] \<longrightarrow>
        inlinePart u \<in> set (snd (thumbnailPromptParts ttl lang n m1 m2 bgs lay st k))"
    by (simp add: thumbnailPromptParts_parts subjectPart_def)
  have p2: "\<forall>u. m2 = Some u \<and> u \<noteq> [] \<and> n = 2 \<longrightarrow>
        inlinePart u \<in> set (snd (thumbnailPromptParts ttl lang n m1 m2 bgs lay st k))"
    by (simp add: thumbnailPromptParts_parts subjectPart_def)
  have h: "hd (snd (thumbnailPromptParts ttl lang n m1 m2 bgs lay st k)) =
        TextPart (fst (thumbnailPromptParts ttl lang n m1 m2 bgs lay st k))"
    by (simp add: thumbnailPromptParts_parts)
  have r: "req_contents (thumbnailRequest ttl lang n m1 m2 bgs lay st k) =
        Parts (snd (thumbnailPromptParts ttl lang n m1 m2 bgs lay st k))"
    by (simp add: thumbnailRequest_def)
  show ?thesis
    by (intro conjI)
      (rule prompt_has_title prompt_has_layout [of lay n ttl lang m1 m2 bgs st k] v c o p1 p2 h r)+
qed

theorem thumbnail_instruction_layout_witness:
  "sublist ''My title'' (fst (thumbnailPromptParts ''My title'' en 2 (Some (preview photo1))
      (Some (preview photo2)) [] ''Versus/Comparison'' None 80))
   \<and> sublist wording_versus (fst (thumbnailPromptParts ''My title'' en 2 (Some (preview photo1))
      (Some (preview photo2)) [] ''Versus/Comparison'' None 80))
   \<and> inlinePart (preview photo1) \<in> set (snd (thumbnailPromptParts ''My title'' en 2 (Some (preview photo1))
      (Some (preview photo2)) [] ''Versus/Comparison'' None 80))
   \<and> inlinePart (preview photo2) \<in> set (snd (thumbnailPromptParts ''My title'' en 2 (Some (preview photo1))
      (Some (preview photo2)) [] ''Versus/Comparison'' None 80))
   \<and> inlinePart (preview photo2) = InlinePart (InlineData ''BBB'' ''image/jpeg'')
   \<and> sublist wording_collaboration (fst (thumbnailPromptParts ''My title'' en 2 (Some (preview photo1))
      (Some (preview photo2)) [] ''Collaboration'' None 80))
   \<and> sublist wording_prominent (fst (thumbnailPromptParts ''My title'' en 2 (Some (preview photo1))
      (Some (preview photo2)) [] ''Default'' None 80))
   \<and> sublist wording_prominent (fst (thumbnailPromptParts ''My title'' en 1 (Some (preview photo1))
      None [] ''Versus/Comparison'' None 80))"
proof -
  have ne: "preview photo1 \<noteq> []" "preview photo2 \<noteq> []"
    by (simp_all add: photo1_def photo2_def)
  have ip: "inlinePart (preview photo2) = InlinePart (InlineData ''BBB'' ''image/jpeg'')"
    by (simp add: photo2_def inlinePart_def dataUrl_pureBase64_def dataUrl_mimeType_def
        js_indexOf_def js_substring_def js_substring_from_def Let_def)
  note V = thumbnail_instruction_layout [of "''My title''" en 2 "Some (preview photo1)"
      "Some (preview photo2)" "[]" "''Versus/Comparison''" None 80]
  note C = thumbnail_instruction_layout [of "''My title''" en 2 "Some (preview photo1)"
      "Some (preview photo2)" "[]" "''Collaboration''" None 80]
  note D = thumbnail_instruction_layout [of "''My title''" en 2 "Some (preview photo1)"
      "Some (preview photo2)" "[]" "''Default''" None 80]
  note O = thumbnail_instruction_layout [of "''My title''" en 1 "Some (preview photo1)"
      None "[]" "''Versus/Comparison''" None 80]
  from V ne have v: "sublist ''My title'' (fst (thumbnailPromptParts ''My title'' en 2 (Some (preview photo1))
      (Some (preview photo2)) [] ''Versus/Comparison'' None 80))
   \<and> sublist wording_versus (fst (thumbnailPromptParts ''My title'' en 2 (Some (preview photo1))
      (Some (preview photo2)) [] ''Versus/Comparison'' None 80))
   \<and> inlinePart (preview photo1) \<in> set (snd (thumbnailPromptParts ''My title'' en 2 (Some (preview photo1))
      (Some (preview photo2)) [] ''Versus/Comparison'' None 80))
   \<and> inlinePart (preview photo2) \<in> set (snd (thumbnailPromptParts ''My title'' en 2 (Some (preview photo1))
      (Some (preview photo2)) [] ''Versus/Comparison'' None 80))"
    by simp
  from C have c: "sublist wording_collaboration (fst (thumbnailPromptParts ''My title'' en 2 (Some (preview photo1))
      (Some (preview photo2)) [] ''Collaboration'' None 80))"
    by simp
  from D have d: "sublist wording_prominent (fst (thumbnailPromptParts ''My title'' en 2 (Some (preview photo1))
      (Some (preview photo2)) [] ''Default'' None 80))"
    by simp
  from O have o: "sublist wording_prominent (fst (thumbnailPromptParts ''My title'' en 1 (Some (preview photo1))
      None [] ''Versus/Comparison'' None 80))"
    by simp
  from v c d o ip show ?thesis by simp
qed

text \<open>
  The claim as first stated fails: with the "Versus/Comparison" preset still selected
  in one-subject mode, the instruction does not contain the opposing-sides wording, and
  a second subject image that was supplied is not among the request parts.
\<close>

theorem versus_with_one_subject_is_prominent:
  "\<not> sublist wording_versus (fst (thumbnailPromptParts ''My title'' en 1 (Some ''data:image/png;base64,AAA'')
       (Some ''data:image/jpeg;base64,BBB'') [] ''Versus/Comparison'' None 80))
   \<and> inlinePart ''data:image/jpeg;base64,BBB'' \<notin> set (snd (thumbnailPromptParts ''My title'' en 1
       (Some ''data:image/png;base64,AAA'') (Some ''data:image/jpeg;base64,BBB'') [] ''Versus/Comparison'' None 80))"
proof
  show "\<not> sublist wording_versus (fst (thumbnailPromptParts ''My title'' en 1 (Some ''data:image/png;base64,AAA'')
       (Some ''data:image/jpeg;base64,BBB'') [] ''Versus/Comparison'' None 80))"
    by code_simp
  show "inlinePart ''data:image/jpeg;base64,BBB'' \<notin> set (snd (thumbnailPromptParts ''My title'' en 1
       (Some ''data:image/png;base64,AAA'') (Some ''data:image/jpeg;base64,BBB'') [] ''Versus/Comparison'' None 80))"
    by (simp add: thumbnailPromptParts_parts subjectPart_def inlinePart_def dataUrl_pureBase64_def
        dataUrl_mimeType_def js_indexOf_def js_substring_def js_substring_from_def Let_def)
qed

text \<open>
  Claim C10. When the number of subjects is not two, the thumbnail request is the one
  built without a second subject image: the parts are the instruction, the first
  subject image when supplied, and the background images. With two subjects a supplied
  second image follows the first. In one-subject mode the instruction says that 1 image
  is provided and has no line for a second image, and the generate action sends the
  same requests whatever is stored in the second slot.
\<close>

theorem second_subject_only_in_two_subject_mode:
  "(n \<noteq> 2 \<longrightarrow>
      thumbnailPromptParts ttl lang n m1 m2 bgs lay st k = thumbnailPromptParts ttl lang n m1 None bgs lay st k
      \<and> snd (thumbnailPromptParts ttl lang n m1 m2 bgs lay st k) =
          TextPart (fst (thumbnailPromptParts ttl lang n m1 m2 bgs lay st k)) # subjectPart m1 @ map inlinePart bgs)
   \<and> (n = 2 \<longrightarrow>
      snd (thumbnailPromptParts ttl lang n m1 m2 bgs lay st k) =
          TextPart (fst (thumbnailPromptParts ttl lang n m1 m2 bgs lay st k))
          # subjectPart m1 @ subjectPart m2 @ map inlinePart bgs)
   \<and> fst (thumbnailPromptParts ttl lang 1 m1 m2 bgs lay st k) =
        prompt_intro @ prompt_title ttl @ prompt_language lang @ prompt_subjects 1
        @ (if truthy m1 then prompt_image1 else [])
        @ prompt_layout lay @ wording_prominent @ prompt_placement
        @ (if bgs \<noteq> [] then prompt_backgrounds else [])
        @ (case st of None \<Rightarrow> [] | Some d \<Rightarrow> if d \<noteq> [] then prompt_style k d else [])
        @ prompt_closing
   \<and> prompt_subjects 1 = ''**Main Subjects**: You are provided with 1 image(s) of the main subject(s). You MUST use these images in the thumbnail. **CRITICAL RULE: DO NOT alter the facial features, expression, or likeness of the people in these photos.** You may perform background removal, cropping, and place them within the composition, but the person themselves must remain unchanged.'' @ nl @ nl
   \<and> (numSubjects s \<noteq> 2 \<longrightarrow>
        snd (handleGenerateClick ep (s\<lparr>mainSubject2 := m\<rparr>, log)) = snd (handleGenerateClick ep (s, log)))"
proof -
  have a: "n \<noteq> 2 \<longrightarrow>
      thumbnailPromptParts ttl lang n m1 m2 bgs lay st k = thumbnailPromptParts ttl lang n m1 None bgs lay st k
      \<and> snd (thumbnailPromptParts ttl lang n m1 m2 bgs lay st k) =
          TextPart (fst (thumbnailPromptParts ttl lang n m1 m2 bgs lay st k)) # subjectPart m1 @ map inlinePart bgs"
    using thumbnailPromptParts_one_mode [of n ttl lang m1 m2 bgs lay st k]
    by (simp add: thumbnailPromptParts_parts)
  have b: "n = 2 \<longrightarrow>
      snd (thumbnailPromptParts ttl lang n m1 m2 bgs lay st k) =
          TextPart (fst (thumbnailPromptParts ttl lang n m1 m2 bgs lay st k))
          # subjectPart m1 @ subjectPart m2 @ map inlinePart bgs"
    by (simp add: thumbnailPromptParts_parts)
  have c: "fst (thumbnailPromptParts ttl lang 1 m1 m2 bgs lay st k) =
        prompt_intro @ prompt_title ttl @ prompt_language lang @ prompt_subjects 1
        @ (if truthy m1 then prompt_image1 else [])
        @ prompt_layout lay @ wording_prominent @ prompt_placement
        @ (if bgs \<noteq> [] then prompt_backgrounds else [])
        @ (case st of None \<Rightarrow> [] | Some d \<Rightarrow> if d \<noteq> [] then prompt_style k d else [])
        @ prompt_closing"
    by (simp add: thumbnailPromptParts_prompt layoutWording_def)
  have d: "prompt_subjects 1 = ''**Main Subjects**: You are provided with 1 image(s) of the main subject(s). You MUST use these images in the thumbnail. **CRITICAL RULE: DO NOT alter the facial features, expression, or likeness of the people in these photos.** You may perform background removal, cropping, and place them within the composition, but the person themselves must remain unchanged.'' @ nl @ nl"
    unfolding prompt_subjects_def js_show_nat_1 by simp
  have e: "numSubjects s \<noteq> 2 \<longrightarrow>
        snd (handleGenerateClick ep (s\<lparr>mainSubject2 := m\<rparr>, log)) = snd (handleGenerateClick ep (s, log))"
    by (simp add: handleGenerateClick_one_mode)
  show ?thesis
    by (intro conjI) (rule a b c d e)+
qed

theorem second_subject_only_in_two_subject_mode_witness:
  "numSubjects ws_second_stored = 1 \<and> mainSubject2 ws_second_stored = Some photo2
   \<and> snd (thumbnailPromptParts ''My title'' en 1 (Some (preview photo1)) (Some (preview photo2)) []
        ''Versus/Comparison'' None 80) =
      [TextPart (fst (thumbnailPromptParts ''My title'' en 1 (Some (preview photo1)) (Some (preview photo2)) []
        ''Versus/Comparison'' None 80)), InlinePart (InlineData ''AAA'' ''image/png'')]
   \<and> snd (thumbnailPromptParts ''My title'' en 2 (Some (preview photo1)) (Some (preview photo2)) []
        ''Versus/Comparison'' None 80) =
      [TextPart (fst (thumbnailPromptParts ''My title'' en 2 (Some (preview photo1)) (Some (preview photo2)) []
        ''Versus/Comparison'' None 80)), InlinePart (InlineData ''AAA'' ''image/png''),
       InlinePart (InlineData ''BBB'' ''image/jpeg'')]
   \<and> snd (handleGenerateClick ep_image_first (ws_second_stored, [])) =
      snd (handleGenerateClick ep_image_first (ws_second_stored\<lparr>mainSubject2 := None\<rparr>, []))"
proof -
  have n: "numSubjects ws_second_stored = 1" and m: "mainSubject2 ws_second_stored = Some photo2"
    by (simp_all add: ws_second_stored_def ws_ABC_def initialWorkspace_def)
  have p1: "subjectPart (Some (preview photo1)) = [InlinePart (InlineData ''AAA'' ''image/png'')]"
    by (simp add: subjectPart_def photo1_def inlinePart_def dataUrl_pureBase64_def dataUrl_mimeType_def
        js_indexOf_def js_substring_def js_substring_from_def Let_def)
  have p2: "subjectPart (Some (preview photo2)) = [InlinePart (InlineData ''BBB'' ''image/jpeg'')]"
    by (simp add: subjectPart_def photo2_def inlinePart_def dataUrl_pureBase64_def dataUrl_mimeType_def
        js_indexOf_def js_substring_def js_substring_from_def Let_def)
  have one: "(1::nat) \<noteq> 2" by simp
  note T1 = second_subject_only_in_two_subject_mode [of 1 "''My title''" en "Some (preview photo1)"
      "Some (preview photo2)" "[]" "''Versus/Comparison''" None 80 ws_second_stored ep_image_first None "[]"]
  note T2 = second_subject_only_in_two_subject_mode [of 2 "''My title''" en "Some (preview photo1)"
      "Some (preview photo2)" "[]" "''Versus/Comparison''" None 80 ws_second_stored ep_image_first None "[]"]
  have a: "snd (thumbnailPromptParts ''My title'' en 1 (Some (preview photo1)) (Some (preview photo2)) []
        ''Versus/Comparison'' None 80) =
      [TextPart (fst (thumbnailPromptParts ''My title'' en 1 (Some (preview photo1)) (Some (preview photo2)) []
        ''Versus/Comparison'' None 80)), InlinePart (InlineData ''AAA'' ''image/png'')]"
    using conjunct2 [OF mp [OF conjunct1 [OF T1] one]] p1 by simp
  have b: "snd (thumbnailPromptParts ''My title'' en 2 (Some (preview photo1)) (Some (preview photo2)) []
        ''Versus/Comparison'' None 80) =
      [TextPart (fst (thumbnailPromptParts ''My title'' en 2 (Some (preview photo1)) (Some (preview photo2)) []
        ''Versus/Comparison'' None 80)), InlinePart (InlineData ''AAA'' ''image/png''),
       InlinePart (InlineData ''BBB'' ''image/jpeg'')]"
    using conjunct1 [OF conjunct2 [OF T2]] p1 p2 by simp
  have c: "snd (handleGenerateClick ep_image_first (ws_second_stored, [])) =
      snd (handleGenerateClick ep_image_first (ws_second_stored\<lparr>mainSubject2 := None\<rparr>, []))"
    using conjunct2 [OF conjunct2 [OF conjunct2 [OF conjunct2 [OF T1]]]] n by simp
  from n m a b c show ?thesis by simp
qed

end
